theory Spec2Isabelle
  imports Complex_Main "HOL-Library.Word" "HOL-Library.Monad_Syntax"
begin

unbundle bit_operations_syntax

section \<open>Data model (simd_calc.h)\<close>

text \<open>
  The C type \<^verbatim>\<open>double\<close> is a type parameter \<open>'a\<close> with a zero, an addition and a
  multiplication. The definitions use nothing else, so a theorem stated for every such
  \<open>'a\<close> holds whatever the arithmetic does (it uses no law of \<open>+\<close> and \<open>*\<close>); the
  theorems that compare different summation orders are stated for \<open>real\<close>, the exact
  arithmetic, and the theorems whose truth depends on infinities and NaN are stated for the
  type \<open>double\<close> defined below, which has these special values. Rounding is not modelled.

  \<^verbatim>\<open>size_t\<close> is \<open>nat\<close>: the code computes no number above \<open>count + 8\<close> (the largest are
  \<^verbatim>\<open>i + 4\<close> and \<^verbatim>\<open>i + 8\<close> in the loop tests, with \<open>i \<le> count\<close>), and a \<open>count\<close> that is the
  length of an array of 8-byte doubles is below \<open>2 ^ 61\<close>, so that nothing wraps around.
\<close>

record 'a CalculationResult =
  direct_costs :: 'a
  labor_costs :: 'a
  machine_op_costs :: 'a
  material_costs :: 'a
  machine_costs :: 'a
  overhead :: 'a
  profit :: 'a
  subtotal :: 'a
  vat :: 'a
  total' :: 'a

record 'a CalculationSettings =
  overhead_rate :: 'a
  profit_rate :: 'a
  vat_rate :: 'a
  index :: 'a

text \<open>\<^verbatim>\<open>CalculationResult result = {0};\<close>\<close>

definition zero_result :: "'a::zero CalculationResult" where
  "zero_result =
     \<lparr>direct_costs = 0, labor_costs = 0, machine_op_costs = 0, material_costs = 0,
      machine_costs = 0, overhead = 0, profit = 0, subtotal = 0, vat = 0, total' = 0\<rparr>"

text \<open>
  The three compile-time configurations of simd_calc.c: \<^verbatim>\<open>HAS_X86_SIMD\<close> with
  \<^verbatim>\<open>__AVX512F__\<close>, \<^verbatim>\<open>HAS_X86_SIMD\<close> without it, and any other architecture.
\<close>

datatype build = X86_AVX512F | X86_AVX2 | Other_Arch

section \<open>Arrays and vector registers\<close>

text \<open>
  A \<^verbatim>\<open>const double*\<close> argument is the list of the doubles stored from that pointer on.
  Reading at an index beyond the list is undefined behaviour in C; the model returns
  \<open>None\<close> there, and \<open>None\<close> propagates to the result of the kernel.
\<close>

definition array_read :: "'a list \<Rightarrow> nat \<Rightarrow> 'a option" where
  "array_read xs i = (if i < length xs then Some (xs ! i) else None)"

datatype 'a m128d = M128 'a 'a
datatype 'a m256d = M256 'a 'a 'a 'a
datatype 'a m512d = M512 'a 'a 'a 'a 'a 'a 'a 'a

definition mm256_setzero_pd :: "'a::zero m256d" where
  "mm256_setzero_pd = M256 0 0 0 0"

definition mm512_setzero_pd :: "'a::zero m512d" where
  "mm512_setzero_pd = M512 0 0 0 0 0 0 0 0"

text \<open>
  Unaligned loads of 4 and of 8 consecutive doubles. The first argument is the way a
  double is read: \<open>array_read xs\<close> for an array argument (then \<open>idx\<close> is \<^verbatim>\<open>&xs[idx]\<close>), or
  the memory itself for an address (section on array operations).
\<close>

definition mm256_loadu_pd :: "(nat \<Rightarrow> 'a option) \<Rightarrow> nat \<Rightarrow> 'a m256d option" where
  "mm256_loadu_pd rd idx =
     do {
       x0 \<leftarrow> rd idx;
       x1 \<leftarrow> rd (idx + 1);
       x2 \<leftarrow> rd (idx + 2);
       x3 \<leftarrow> rd (idx + 3);
       Some (M256 x0 x1 x2 x3)
     }"

definition mm512_loadu_pd :: "(nat \<Rightarrow> 'a option) \<Rightarrow> nat \<Rightarrow> 'a m512d option" where
  "mm512_loadu_pd rd idx =
     do {
       x0 \<leftarrow> rd idx;
       x1 \<leftarrow> rd (idx + 1);
       x2 \<leftarrow> rd (idx + 2);
       x3 \<leftarrow> rd (idx + 3);
       x4 \<leftarrow> rd (idx + 4);
       x5 \<leftarrow> rd (idx + 5);
       x6 \<leftarrow> rd (idx + 6);
       x7 \<leftarrow> rd (idx + 7);
       Some (M512 x0 x1 x2 x3 x4 x5 x6 x7)
     }"

text \<open>Lane-wise arithmetic. A fused multiply-add of \<open>a\<close>, \<open>b\<close>, \<open>c\<close> is \<open>a * b + c\<close>.\<close>

fun mm_add_pd :: "'a::plus m128d \<Rightarrow> 'a m128d \<Rightarrow> 'a m128d" where
  "mm_add_pd (M128 a0 a1) (M128 b0 b1) = M128 (a0 + b0) (a1 + b1)"

fun mm_hadd_pd :: "'a::plus m128d \<Rightarrow> 'a m128d \<Rightarrow> 'a m128d" where
  "mm_hadd_pd (M128 a0 a1) (M128 b0 b1) = M128 (a0 + a1) (b0 + b1)"

fun mm_cvtsd_f64 :: "'a m128d \<Rightarrow> 'a" where
  "mm_cvtsd_f64 (M128 a0 a1) = a0"

fun mm256_castpd256_pd128 :: "'a m256d \<Rightarrow> 'a m128d" where
  "mm256_castpd256_pd128 (M256 a0 a1 a2 a3) = M128 a0 a1"

fun mm256_extractf128_pd :: "'a m256d \<Rightarrow> nat \<Rightarrow> 'a m128d" where
  "mm256_extractf128_pd (M256 a0 a1 a2 a3) imm =
     (if imm = 0 then M128 a0 a1 else M128 a2 a3)"

fun mm256_add_pd :: "'a::plus m256d \<Rightarrow> 'a m256d \<Rightarrow> 'a m256d" where
  "mm256_add_pd (M256 a0 a1 a2 a3) (M256 b0 b1 b2 b3) =
     M256 (a0 + b0) (a1 + b1) (a2 + b2) (a3 + b3)"

fun mm256_mul_pd :: "'a::times m256d \<Rightarrow> 'a m256d \<Rightarrow> 'a m256d" where
  "mm256_mul_pd (M256 a0 a1 a2 a3) (M256 b0 b1 b2 b3) =
     M256 (a0 * b0) (a1 * b1) (a2 * b2) (a3 * b3)"

fun mm256_fmadd_pd :: "'a::{plus,times} m256d \<Rightarrow> 'a m256d \<Rightarrow> 'a m256d \<Rightarrow> 'a m256d" where
  "mm256_fmadd_pd (M256 a0 a1 a2 a3) (M256 b0 b1 b2 b3) (M256 c0 c1 c2 c3) =
     M256 (a0 * b0 + c0) (a1 * b1 + c1) (a2 * b2 + c2) (a3 * b3 + c3)"

fun mm512_add_pd :: "'a::plus m512d \<Rightarrow> 'a m512d \<Rightarrow> 'a m512d" where
  "mm512_add_pd (M512 a0 a1 a2 a3 a4 a5 a6 a7) (M512 b0 b1 b2 b3 b4 b5 b6 b7) =
     M512 (a0 + b0) (a1 + b1) (a2 + b2) (a3 + b3) (a4 + b4) (a5 + b5) (a6 + b6) (a7 + b7)"

fun mm512_mul_pd :: "'a::times m512d \<Rightarrow> 'a m512d \<Rightarrow> 'a m512d" where
  "mm512_mul_pd (M512 a0 a1 a2 a3 a4 a5 a6 a7) (M512 b0 b1 b2 b3 b4 b5 b6 b7) =
     M512 (a0 * b0) (a1 * b1) (a2 * b2) (a3 * b3) (a4 * b4) (a5 * b5) (a6 * b6) (a7 * b7)"

fun mm512_fmadd_pd :: "'a::{plus,times} m512d \<Rightarrow> 'a m512d \<Rightarrow> 'a m512d \<Rightarrow> 'a m512d" where
  "mm512_fmadd_pd (M512 a0 a1 a2 a3 a4 a5 a6 a7) (M512 b0 b1 b2 b3 b4 b5 b6 b7)
       (M512 c0 c1 c2 c3 c4 c5 c6 c7) =
     M512 (a0 * b0 + c0) (a1 * b1 + c1) (a2 * b2 + c2) (a3 * b3 + c3)
          (a4 * b4 + c4) (a5 * b5 + c5) (a6 * b6 + c6) (a7 * b7 + c7)"

text \<open>
  \<^verbatim>\<open>_mm512_reduce_add_pd\<close> as the intrinsics guide gives it: the upper half is added to
  the lower half lane by lane, twice, and the two remaining lanes are added.
\<close>

fun mm512_reduce_add_pd :: "'a::plus m512d \<Rightarrow> 'a" where
  "mm512_reduce_add_pd (M512 a0 a1 a2 a3 a4 a5 a6 a7) =
     ((a0 + a4) + (a2 + a6)) + ((a1 + a5) + (a3 + a7))"

text \<open>\<^verbatim>\<open>hsum256_pd\<close>, simd_calc.c lines 155-161.\<close>

definition hsum256_pd :: "'a::plus m256d \<Rightarrow> 'a" where
  "hsum256_pd v =
     (let low = mm256_castpd256_pd128 v;
          high = mm256_extractf128_pd v 1;
          sum128 = mm_add_pd low high;
          sum = mm_hadd_pd sum128 sum128
      in mm_cvtsd_f64 sum)"

section \<open>Scalar implementation (simd_calc.c lines 107-146)\<close>

text \<open>
  The body of the scalar accumulation loop. The same loop is written three times in the
  source: lines 119-126 (scalar tier), 216-223 (remainder of the AVX2 tier) and 336-343
  (remainder of the AVX-512 tier); they differ only in the index they start from.
\<close>

definition scalar_item ::
  "'a::{plus,times} list \<Rightarrow> 'a list \<Rightarrow> 'a list \<Rightarrow> 'a list \<Rightarrow> 'a list \<Rightarrow> 'a list \<Rightarrow> nat \<Rightarrow>
   'a CalculationResult \<Rightarrow> 'a CalculationResult option" where
  "scalar_item quantities direct_unit labor_unit machine_op_unit material_unit machine_unit
       i result =
     do {
       q \<leftarrow> array_read quantities i;
       d \<leftarrow> array_read direct_unit i;
       l \<leftarrow> array_read labor_unit i;
       mo \<leftarrow> array_read machine_op_unit i;
       mat \<leftarrow> array_read material_unit i;
       m \<leftarrow> array_read machine_unit i;
       Some (result\<lparr>direct_costs := direct_costs result + q * d,
                    labor_costs := labor_costs result + q * l,
                    machine_op_costs := machine_op_costs result + q * mo,
                    material_costs := material_costs result + q * mat,
                    machine_costs := machine_costs result + q * m\<rparr>)
     }"

function scalar_loop ::
  "'a::{plus,times} list \<Rightarrow> 'a list \<Rightarrow> 'a list \<Rightarrow> 'a list \<Rightarrow> 'a list \<Rightarrow> 'a list \<Rightarrow> nat \<Rightarrow> nat \<Rightarrow>
   'a CalculationResult \<Rightarrow> 'a CalculationResult option" where
  "scalar_loop quantities direct_unit labor_unit machine_op_unit material_unit machine_unit
       i count result =
     (if i < count then
        (case scalar_item quantities direct_unit labor_unit machine_op_unit material_unit
                machine_unit i result of
           None \<Rightarrow> None
         | Some result' \<Rightarrow>
             scalar_loop quantities direct_unit labor_unit machine_op_unit material_unit
               machine_unit (Suc i) count result')
      else Some result)"
  by pat_completeness auto
termination
  by (relation "measure (\<lambda>(qs, d, l, mo, mat, m, i, count, r). count - i)") auto

declare scalar_loop.simps [simp del]

definition calculate_estimate_scalar ::
  "'a::{zero,plus,times} list \<Rightarrow> 'a list \<Rightarrow> 'a list \<Rightarrow> 'a list \<Rightarrow> 'a list \<Rightarrow> 'a list \<Rightarrow> nat \<Rightarrow>
   'a CalculationSettings \<Rightarrow> 'a CalculationResult option" where
  "calculate_estimate_scalar quantities direct_unit labor_unit machine_op_unit material_unit
       machine_unit count settings =
     do {
       result \<leftarrow> scalar_loop quantities direct_unit labor_unit machine_op_unit material_unit
                   machine_unit 0 count zero_result;
       let result = result\<lparr>direct_costs := direct_costs result * index settings\<rparr>;
       let result = result\<lparr>labor_costs := labor_costs result * index settings\<rparr>;
       let result = result\<lparr>machine_op_costs := machine_op_costs result * index settings\<rparr>;
       let result = result\<lparr>material_costs := material_costs result * index settings\<rparr>;
       let result = result\<lparr>machine_costs := machine_costs result * index settings\<rparr>;
       let labor_total = labor_costs result + machine_op_costs result;
       let result = result\<lparr>overhead := labor_total * overhead_rate settings\<rparr>;
       let result = result\<lparr>profit := labor_total * profit_rate settings\<rparr>;
       let result = result\<lparr>subtotal := direct_costs result + overhead result + profit result\<rparr>;
       let result = result\<lparr>vat := subtotal result * vat_rate settings\<rparr>;
       let result = result\<lparr>total' := subtotal result + vat result\<rparr>;
       Some result
     }"

section \<open>AVX2 implementation (simd_calc.c lines 163-243)\<close>

text \<open>The five vector accumulators of a tier, of vector type \<open>'v\<close>.\<close>

record 'v accumulators =
  direct_sum :: 'v
  labor_sum :: 'v
  machine_op_sum :: 'v
  material_sum :: 'v
  machine_sum :: 'v

definition zero_accumulators256 :: "'a::zero m256d accumulators" where
  "zero_accumulators256 =
     \<lparr>direct_sum = mm256_setzero_pd, labor_sum = mm256_setzero_pd,
      machine_op_sum = mm256_setzero_pd, material_sum = mm256_setzero_pd,
      machine_sum = mm256_setzero_pd\<rparr>"

definition zero_accumulators512 :: "'a::zero m512d accumulators" where
  "zero_accumulators512 =
     \<lparr>direct_sum = mm512_setzero_pd, labor_sum = mm512_setzero_pd,
      machine_op_sum = mm512_setzero_pd, material_sum = mm512_setzero_pd,
      machine_sum = mm512_setzero_pd\<rparr>"

text \<open>
  One iteration of a 4-wide loop at \<^verbatim>\<open>idx\<close>: lines 190-205 with \<^verbatim>\<open>idx = i * 4\<close>, and
  lines 316-323 with \<^verbatim>\<open>idx = remainder_start + i * 4\<close>.
\<close>

definition avx2_chunk ::
  "'a::{plus,times} list \<Rightarrow> 'a list \<Rightarrow> 'a list \<Rightarrow> 'a list \<Rightarrow> 'a list \<Rightarrow> 'a list \<Rightarrow> nat \<Rightarrow>
   'a m256d accumulators \<Rightarrow> 'a m256d accumulators option" where
  "avx2_chunk quantities direct_unit labor_unit machine_op_unit material_unit machine_unit
       idx acc =
     do {
       q \<leftarrow> mm256_loadu_pd (array_read quantities) idx;
       d \<leftarrow> mm256_loadu_pd (array_read direct_unit) idx;
       l \<leftarrow> mm256_loadu_pd (array_read labor_unit) idx;
       mo \<leftarrow> mm256_loadu_pd (array_read machine_op_unit) idx;
       mat \<leftarrow> mm256_loadu_pd (array_read material_unit) idx;
       m \<leftarrow> mm256_loadu_pd (array_read machine_unit) idx;
       Some (acc\<lparr>direct_sum := mm256_fmadd_pd q d (direct_sum acc),
                 labor_sum := mm256_fmadd_pd q l (labor_sum acc),
                 machine_op_sum := mm256_fmadd_pd q mo (machine_op_sum acc),
                 material_sum := mm256_fmadd_pd q mat (material_sum acc),
                 machine_sum := mm256_fmadd_pd q m (machine_sum acc)\<rparr>)
     }"

text \<open>The main loop of the AVX2 tier, lines 189-206.\<close>

function avx2_loop ::
  "'a::{plus,times} list \<Rightarrow> 'a list \<Rightarrow> 'a list \<Rightarrow> 'a list \<Rightarrow> 'a list \<Rightarrow> 'a list \<Rightarrow> nat \<Rightarrow> nat \<Rightarrow>
   'a m256d accumulators \<Rightarrow> 'a m256d accumulators option" where
  "avx2_loop quantities direct_unit labor_unit machine_op_unit material_unit machine_unit
       i chunks acc =
     (if i < chunks then
        (case avx2_chunk quantities direct_unit labor_unit machine_op_unit material_unit
                machine_unit (i * 4) acc of
           None \<Rightarrow> None
         | Some acc' \<Rightarrow>
             avx2_loop quantities direct_unit labor_unit machine_op_unit material_unit
               machine_unit (Suc i) chunks acc')
      else Some acc)"
  by pat_completeness auto
termination
  by (relation "measure (\<lambda>(qs, d, l, mo, mat, m, i, chunks, acc). chunks - i)") auto

declare avx2_loop.simps [simp del]

definition calculate_estimate_avx2_x86 ::
  "'a::{zero,plus,times} list \<Rightarrow> 'a list \<Rightarrow> 'a list \<Rightarrow> 'a list \<Rightarrow> 'a list \<Rightarrow> 'a list \<Rightarrow> nat \<Rightarrow>
   'a CalculationSettings \<Rightarrow> 'a CalculationResult option" where
  "calculate_estimate_avx2_x86 quantities direct_unit labor_unit machine_op_unit material_unit
       machine_unit count settings =
     (if count < 4 then
        calculate_estimate_scalar quantities direct_unit labor_unit machine_op_unit
          material_unit machine_unit count settings
      else
        do {
          let chunks = count div 4;
          acc \<leftarrow> avx2_loop quantities direct_unit labor_unit machine_op_unit material_unit
                   machine_unit 0 chunks zero_accumulators256;
          let result = zero_result;
          let result = result\<lparr>direct_costs := hsum256_pd (direct_sum acc)\<rparr>;
          let result = result\<lparr>labor_costs := hsum256_pd (labor_sum acc)\<rparr>;
          let result = result\<lparr>machine_op_costs := hsum256_pd (machine_op_sum acc)\<rparr>;
          let result = result\<lparr>material_costs := hsum256_pd (material_sum acc)\<rparr>;
          let result = result\<lparr>machine_costs := hsum256_pd (machine_sum acc)\<rparr>;
          result \<leftarrow> scalar_loop quantities direct_unit labor_unit machine_op_unit
                      material_unit machine_unit (chunks * 4) count result;
          let result = result\<lparr>direct_costs := direct_costs result * index settings\<rparr>;
          let result = result\<lparr>labor_costs := labor_costs result * index settings\<rparr>;
          let result = result\<lparr>machine_op_costs := machine_op_costs result * index settings\<rparr>;
          let result = result\<lparr>material_costs := material_costs result * index settings\<rparr>;
          let result = result\<lparr>machine_costs := machine_costs result * index settings\<rparr>;
          let labor_total = labor_costs result + machine_op_costs result;
          let result = result\<lparr>overhead := labor_total * overhead_rate settings\<rparr>;
          let result = result\<lparr>profit := labor_total * profit_rate settings\<rparr>;
          let result = result\<lparr>subtotal := direct_costs result + overhead result + profit result\<rparr>;
          let result = result\<lparr>vat := subtotal result * vat_rate settings\<rparr>;
          let result = result\<lparr>total' := subtotal result + vat result\<rparr>;
          Some result
        })"

text \<open>
  \<^verbatim>\<open>calculate_estimate_avx2\<close> in each configuration: lines 163-243 under
  \<^verbatim>\<open>HAS_X86_SIMD\<close>, lines 531-546 otherwise.
\<close>

definition calculate_estimate_avx2 ::
  "build \<Rightarrow> 'a::{zero,plus,times} list \<Rightarrow> 'a list \<Rightarrow> 'a list \<Rightarrow> 'a list \<Rightarrow> 'a list \<Rightarrow> 'a list \<Rightarrow>
   nat \<Rightarrow> 'a CalculationSettings \<Rightarrow> 'a CalculationResult option" where
  "calculate_estimate_avx2 b quantities direct_unit labor_unit machine_op_unit material_unit
       machine_unit count settings =
     (case b of
        Other_Arch \<Rightarrow>
          calculate_estimate_scalar quantities direct_unit labor_unit machine_op_unit
            material_unit machine_unit count settings
      | _ \<Rightarrow>
          calculate_estimate_avx2_x86 quantities direct_unit labor_unit machine_op_unit
            material_unit machine_unit count settings)"

section \<open>AVX-512 implementation (simd_calc.c lines 251-363)\<close>

text \<open>One iteration of the 8-wide main loop, lines 278-293.\<close>

definition avx512_chunk ::
  "'a::{plus,times} list \<Rightarrow> 'a list \<Rightarrow> 'a list \<Rightarrow> 'a list \<Rightarrow> 'a list \<Rightarrow> 'a list \<Rightarrow> nat \<Rightarrow>
   'a m512d accumulators \<Rightarrow> 'a m512d accumulators option" where
  "avx512_chunk quantities direct_unit labor_unit machine_op_unit material_unit machine_unit
       idx acc =
     do {
       q \<leftarrow> mm512_loadu_pd (array_read quantities) idx;
       d \<leftarrow> mm512_loadu_pd (array_read direct_unit) idx;
       l \<leftarrow> mm512_loadu_pd (array_read labor_unit) idx;
       mo \<leftarrow> mm512_loadu_pd (array_read machine_op_unit) idx;
       mat \<leftarrow> mm512_loadu_pd (array_read material_unit) idx;
       m \<leftarrow> mm512_loadu_pd (array_read machine_unit) idx;
       Some (acc\<lparr>direct_sum := mm512_fmadd_pd q d (direct_sum acc),
                 labor_sum := mm512_fmadd_pd q l (labor_sum acc),
                 machine_op_sum := mm512_fmadd_pd q mo (machine_op_sum acc),
                 material_sum := mm512_fmadd_pd q mat (material_sum acc),
                 machine_sum := mm512_fmadd_pd q m (machine_sum acc)\<rparr>)
     }"

function avx512_loop ::
  "'a::{plus,times} list \<Rightarrow> 'a list \<Rightarrow> 'a list \<Rightarrow> 'a list \<Rightarrow> 'a list \<Rightarrow> 'a list \<Rightarrow> nat \<Rightarrow> nat \<Rightarrow>
   'a m512d accumulators \<Rightarrow> 'a m512d accumulators option" where
  "avx512_loop quantities direct_unit labor_unit machine_op_unit material_unit machine_unit
       i chunks acc =
     (if i < chunks then
        (case avx512_chunk quantities direct_unit labor_unit machine_op_unit material_unit
                machine_unit (i * 8) acc of
           None \<Rightarrow> None
         | Some acc' \<Rightarrow>
             avx512_loop quantities direct_unit labor_unit machine_op_unit material_unit
               machine_unit (Suc i) chunks acc')
      else Some acc)"
  by pat_completeness auto
termination
  by (relation "measure (\<lambda>(qs, d, l, mo, mat, m, i, chunks, acc). chunks - i)") auto

declare avx512_loop.simps [simp del]

text \<open>The 4-wide loop over the remainder of the AVX-512 tier, lines 315-324.\<close>

function avx512_rem_loop ::
  "'a::{plus,times} list \<Rightarrow> 'a list \<Rightarrow> 'a list \<Rightarrow> 'a list \<Rightarrow> 'a list \<Rightarrow> 'a list \<Rightarrow> nat \<Rightarrow> nat \<Rightarrow>
   nat \<Rightarrow> 'a m256d accumulators \<Rightarrow> 'a m256d accumulators option" where
  "avx512_rem_loop quantities direct_unit labor_unit machine_op_unit material_unit
       machine_unit remainder_start i avx2_chunks acc =
     (if i < avx2_chunks then
        (case avx2_chunk quantities direct_unit labor_unit machine_op_unit material_unit
                machine_unit (remainder_start + i * 4) acc of
           None \<Rightarrow> None
         | Some acc' \<Rightarrow>
             avx512_rem_loop quantities direct_unit labor_unit machine_op_unit material_unit
               machine_unit remainder_start (Suc i) avx2_chunks acc')
      else Some acc)"
  by pat_completeness auto
termination
  by (relation "measure (\<lambda>(qs, d, l, mo, mat, m, rs, i, chunks, acc). chunks - i)") auto

declare avx512_rem_loop.simps [simp del]

text \<open>
  Lines 303-333: the groups of four after the last full group of eight. The result is
  the updated \<^verbatim>\<open>result\<close> with the updated \<^verbatim>\<open>remainder_start\<close>.
\<close>

definition avx512_remainder ::
  "'a::{zero,plus,times} list \<Rightarrow> 'a list \<Rightarrow> 'a list \<Rightarrow> 'a list \<Rightarrow> 'a list \<Rightarrow> 'a list \<Rightarrow> nat \<Rightarrow>
   nat \<Rightarrow> 'a CalculationResult \<Rightarrow> ('a CalculationResult \<times> nat) option" where
  "avx512_remainder quantities direct_unit labor_unit machine_op_unit material_unit
       machine_unit count remainder_start result =
     (if count - remainder_start \<ge> 4 then
        do {
          let avx2_chunks = (count - remainder_start) div 4;
          rem \<leftarrow> avx512_rem_loop quantities direct_unit labor_unit machine_op_unit
                   material_unit machine_unit remainder_start 0 avx2_chunks
                   zero_accumulators256;
          let result = result\<lparr>direct_costs := direct_costs result + hsum256_pd (direct_sum rem)\<rparr>;
          let result = result\<lparr>labor_costs := labor_costs result + hsum256_pd (labor_sum rem)\<rparr>;
          let result = result\<lparr>machine_op_costs :=
                               machine_op_costs result + hsum256_pd (machine_op_sum rem)\<rparr>;
          let result = result\<lparr>material_costs :=
                               material_costs result + hsum256_pd (material_sum rem)\<rparr>;
          let result = result\<lparr>machine_costs :=
                               machine_costs result + hsum256_pd (machine_sum rem)\<rparr>;
          Some (result, remainder_start + avx2_chunks * 4)
        }
      else Some (result, remainder_start))"

definition calculate_estimate_avx512_avx512f ::
  "'a::{zero,plus,times} list \<Rightarrow> 'a list \<Rightarrow> 'a list \<Rightarrow> 'a list \<Rightarrow> 'a list \<Rightarrow> 'a list \<Rightarrow> nat \<Rightarrow>
   'a CalculationSettings \<Rightarrow> 'a CalculationResult option" where
  "calculate_estimate_avx512_avx512f quantities direct_unit labor_unit machine_op_unit
       material_unit machine_unit count settings =
     (if count < 8 then
        calculate_estimate_avx2 X86_AVX512F quantities direct_unit labor_unit machine_op_unit
          material_unit machine_unit count settings
      else
        do {
          let chunks = count div 8;
          acc \<leftarrow> avx512_loop quantities direct_unit labor_unit machine_op_unit material_unit
                   machine_unit 0 chunks zero_accumulators512;
          let result = zero_result;
          let result = result\<lparr>direct_costs := mm512_reduce_add_pd (direct_sum acc)\<rparr>;
          let result = result\<lparr>labor_costs := mm512_reduce_add_pd (labor_sum acc)\<rparr>;
          let result = result\<lparr>machine_op_costs := mm512_reduce_add_pd (machine_op_sum acc)\<rparr>;
          let result = result\<lparr>material_costs := mm512_reduce_add_pd (material_sum acc)\<rparr>;
          let result = result\<lparr>machine_costs := mm512_reduce_add_pd (machine_sum acc)\<rparr>;
          let remainder_start = chunks * 8;
          (result, remainder_start) \<leftarrow>
             avx512_remainder quantities direct_unit labor_unit machine_op_unit material_unit
               machine_unit count remainder_start result;
          result \<leftarrow> scalar_loop quantities direct_unit labor_unit machine_op_unit
                      material_unit machine_unit remainder_start count result;
          let result = result\<lparr>direct_costs := direct_costs result * index settings\<rparr>;
          let result = result\<lparr>labor_costs := labor_costs result * index settings\<rparr>;
          let result = result\<lparr>machine_op_costs := machine_op_costs result * index settings\<rparr>;
          let result = result\<lparr>material_costs := material_costs result * index settings\<rparr>;
          let result = result\<lparr>machine_costs := machine_costs result * index settings\<rparr>;
          let labor_total = labor_costs result + machine_op_costs result;
          let result = result\<lparr>overhead := labor_total * overhead_rate settings\<rparr>;
          let result = result\<lparr>profit := labor_total * profit_rate settings\<rparr>;
          let result = result\<lparr>subtotal := direct_costs result + overhead result + profit result\<rparr>;
          let result = result\<lparr>vat := subtotal result * vat_rate settings\<rparr>;
          let result = result\<lparr>total' := subtotal result + vat result\<rparr>;
          Some result
        })"

text \<open>
  \<^verbatim>\<open>calculate_estimate_avx512\<close> in each configuration: lines 251-363 under
  \<^verbatim>\<open>__AVX512F__\<close>, lines 368-383 under \<^verbatim>\<open>HAS_X86_SIMD\<close> without it, lines 548-563
  otherwise.
\<close>

definition calculate_estimate_avx512 ::
  "build \<Rightarrow> 'a::{zero,plus,times} list \<Rightarrow> 'a list \<Rightarrow> 'a list \<Rightarrow> 'a list \<Rightarrow> 'a list \<Rightarrow> 'a list \<Rightarrow>
   nat \<Rightarrow> 'a CalculationSettings \<Rightarrow> 'a CalculationResult option" where
  "calculate_estimate_avx512 b quantities direct_unit labor_unit machine_op_unit material_unit
       machine_unit count settings =
     (case b of
        X86_AVX512F \<Rightarrow>
          calculate_estimate_avx512_avx512f quantities direct_unit labor_unit machine_op_unit
            material_unit machine_unit count settings
      | X86_AVX2 \<Rightarrow>
          calculate_estimate_avx2 X86_AVX2 quantities direct_unit labor_unit machine_op_unit
            material_unit machine_unit count settings
      | Other_Arch \<Rightarrow>
          calculate_estimate_scalar quantities direct_unit labor_unit machine_op_unit
            material_unit machine_unit count settings)"

section \<open>CPU feature detection (simd_calc.c lines 31-101)\<close>

text \<open>
  The processor is a function from a CPUID leaf and subleaf to the four registers the
  instruction returns. \<^verbatim>\<open>__cpuid\<close> leaves the subleaf unset; leaves 0 and 1, the only
  ones it is used for, do not depend on it, and the model passes 0.
\<close>

record cpuid_regs =
  eax :: "32 word"
  ebx :: "32 word"
  ecx :: "32 word"
  edx :: "32 word"

type_synonym cpu = "nat \<Rightarrow> nat \<Rightarrow> cpuid_regs"

definition get_cpuid :: "cpu \<Rightarrow> nat \<Rightarrow> cpuid_regs" where
  "get_cpuid c func = c func 0"

definition get_cpuid_ex :: "cpu \<Rightarrow> nat \<Rightarrow> nat \<Rightarrow> cpuid_regs" where
  "get_cpuid_ex c func sub = c func sub"

definition denidom_has_avx512 :: "build \<Rightarrow> cpu \<Rightarrow> bool" where
  "denidom_has_avx512 b c =
     (case b of
        Other_Arch \<Rightarrow> False
      | _ \<Rightarrow>
          (let r = get_cpuid c 0 in
           if sint (eax r) < 7 then False
           else (let r = get_cpuid_ex c 7 0 in (ebx r AND push_bit 16 1) \<noteq> 0)))"

definition denidom_has_avx2 :: "build \<Rightarrow> cpu \<Rightarrow> bool" where
  "denidom_has_avx2 b c =
     (case b of
        Other_Arch \<Rightarrow> False
      | _ \<Rightarrow>
          (let r = get_cpuid c 0 in
           if sint (eax r) < 7 then False
           else (let r = get_cpuid_ex c 7 0 in (ebx r AND push_bit 5 1) \<noteq> 0)))"

section \<open>Auto-selection (simd_calc.c lines 613-644)\<close>

definition calculate_estimate_auto ::
  "build \<Rightarrow> cpu \<Rightarrow> 'a::{zero,plus,times} list \<Rightarrow> 'a list \<Rightarrow> 'a list \<Rightarrow> 'a list \<Rightarrow> 'a list \<Rightarrow>
   'a list \<Rightarrow> nat \<Rightarrow> 'a CalculationSettings \<Rightarrow> 'a CalculationResult option" where
  "calculate_estimate_auto b c quantities direct_unit labor_unit machine_op_unit material_unit
       machine_unit count settings =
     (if denidom_has_avx512 b c then
        calculate_estimate_avx512 b quantities direct_unit labor_unit machine_op_unit
          material_unit machine_unit count settings
      else if denidom_has_avx2 b c then
        calculate_estimate_avx2 b quantities direct_unit labor_unit machine_op_unit
          material_unit machine_unit count settings
      else
        calculate_estimate_scalar quantities direct_unit labor_unit machine_op_unit
          material_unit machine_unit count settings)"

section \<open>Array operations (simd_calc.c lines 391-525 and 565-605)\<close>

subsection \<open>Sums and dot product\<close>

text \<open>
  The scalar loop \<^verbatim>\<open>for (; i < count; i++) sum += data[i];\<close> of lines 465-467, 501-503
  and 589-591.
\<close>

function sum_tail :: "'a::plus list \<Rightarrow> nat \<Rightarrow> nat \<Rightarrow> 'a \<Rightarrow> 'a option" where
  "sum_tail data i count sum_acc =
     (if i < count then
        (case array_read data i of
           None \<Rightarrow> None
         | Some x \<Rightarrow> sum_tail data (Suc i) count (sum_acc + x))
      else Some sum_acc)"
  by pat_completeness auto
termination
  by (relation "measure (\<lambda>(data, i, count, sum_acc). count - i)") auto

declare sum_tail.simps [simp del]

text \<open>Lines 494-497: the 4-wide loop; it returns \<^verbatim>\<open>i\<close> with the accumulator.\<close>

function fast_sum_avx2_loop ::
  "'a::plus list \<Rightarrow> nat \<Rightarrow> nat \<Rightarrow> 'a m256d \<Rightarrow> (nat \<times> 'a m256d) option" where
  "fast_sum_avx2_loop data i count sum_vec =
     (if i + 4 \<le> count then
        (case mm256_loadu_pd (array_read data) i of
           None \<Rightarrow> None
         | Some values \<Rightarrow> fast_sum_avx2_loop data (i + 4) count (mm256_add_pd sum_vec values))
      else Some (i, sum_vec))"
  by pat_completeness auto
termination
  by (relation "measure (\<lambda>(data, i, count, sum_vec). count - i)") auto

declare fast_sum_avx2_loop.simps [simp del]

text \<open>Lines 457-460: the 8-wide loop.\<close>

function fast_sum_avx512_loop ::
  "'a::plus list \<Rightarrow> nat \<Rightarrow> nat \<Rightarrow> 'a m512d \<Rightarrow> (nat \<times> 'a m512d) option" where
  "fast_sum_avx512_loop data i count sum_vec =
     (if i + 8 \<le> count then
        (case mm512_loadu_pd (array_read data) i of
           None \<Rightarrow> None
         | Some values \<Rightarrow> fast_sum_avx512_loop data (i + 8) count (mm512_add_pd sum_vec values))
      else Some (i, sum_vec))"
  by pat_completeness auto
termination
  by (relation "measure (\<lambda>(data, i, count, sum_vec). count - i)") auto

declare fast_sum_avx512_loop.simps [simp del]

text \<open>
  \<^verbatim>\<open>fast_sum_avx2\<close>: lines 490-506 under \<^verbatim>\<open>HAS_X86_SIMD\<close>, lines 587-593 otherwise.
\<close>

definition fast_sum_avx2 :: "build \<Rightarrow> 'a::{zero,plus} list \<Rightarrow> nat \<Rightarrow> 'a option" where
  "fast_sum_avx2 b data count =
     (case b of
        Other_Arch \<Rightarrow> sum_tail data 0 count 0
      | _ \<Rightarrow>
          do {
            (i, sum_vec) \<leftarrow> fast_sum_avx2_loop data 0 count mm256_setzero_pd;
            let sum_acc = hsum256_pd sum_vec;
            sum_tail data i count sum_acc
          })"

text \<open>
  \<^verbatim>\<open>fast_sum_avx512\<close>: lines 453-470 under \<^verbatim>\<open>__AVX512F__\<close>, lines 484-486 and 595-597
  otherwise.
\<close>

definition fast_sum_avx512 :: "build \<Rightarrow> 'a::{zero,plus} list \<Rightarrow> nat \<Rightarrow> 'a option" where
  "fast_sum_avx512 b data count =
     (case b of
        X86_AVX512F \<Rightarrow>
          do {
            (i, sum_vec) \<leftarrow> fast_sum_avx512_loop data 0 count mm512_setzero_pd;
            let sum_acc = mm512_reduce_add_pd sum_vec;
            sum_tail data i count sum_acc
          }
      | _ \<Rightarrow> fast_sum_avx2 b data count)"

text \<open>The loops of \<^verbatim>\<open>dot_product_simd\<close>: lines 512-516 and lines 520-522, 601-603.\<close>

function dot_product_loop ::
  "'a::{plus,times} list \<Rightarrow> 'a list \<Rightarrow> nat \<Rightarrow> nat \<Rightarrow> 'a m256d \<Rightarrow> (nat \<times> 'a m256d) option" where
  "dot_product_loop a b i count sum_vec =
     (if i + 4 \<le> count then
        (case mm256_loadu_pd (array_read a) i of
           None \<Rightarrow> None
         | Some va \<Rightarrow>
             (case mm256_loadu_pd (array_read b) i of
                None \<Rightarrow> None
              | Some vb \<Rightarrow> dot_product_loop a b (i + 4) count (mm256_fmadd_pd va vb sum_vec)))
      else Some (i, sum_vec))"
  by pat_completeness auto
termination
  by (relation "measure (\<lambda>(a, b, i, count, sum_vec). count - i)") auto

declare dot_product_loop.simps [simp del]

function dot_product_tail ::
  "'a::{plus,times} list \<Rightarrow> 'a list \<Rightarrow> nat \<Rightarrow> nat \<Rightarrow> 'a \<Rightarrow> 'a option" where
  "dot_product_tail a b i count sum_acc =
     (if i < count then
        (case array_read a i of
           None \<Rightarrow> None
         | Some x \<Rightarrow>
             (case array_read b i of
                None \<Rightarrow> None
              | Some y \<Rightarrow> dot_product_tail a b (Suc i) count (sum_acc + x * y)))
      else Some sum_acc)"
  by pat_completeness auto
termination
  by (relation "measure (\<lambda>(a, b, i, count, sum_acc). count - i)") auto

declare dot_product_tail.simps [simp del]

text \<open>
  \<^verbatim>\<open>dot_product_simd\<close>: lines 508-525 under \<^verbatim>\<open>HAS_X86_SIMD\<close>, lines 599-605 otherwise.
\<close>

definition dot_product_simd ::
  "build \<Rightarrow> 'a::{zero,plus,times} list \<Rightarrow> 'a list \<Rightarrow> nat \<Rightarrow> 'a option" where
  "dot_product_simd bld a b count =
     (case bld of
        Other_Arch \<Rightarrow> dot_product_tail a b 0 count 0
      | _ \<Rightarrow>
          do {
            (i, sum_vec) \<leftarrow> dot_product_loop a b 0 count mm256_setzero_pd;
            let sum_acc = hsum256_pd sum_vec;
            dot_product_tail a b i count sum_acc
          })"

subsection \<open>Elementwise triple product\<close>

text \<open>
  \<^verbatim>\<open>calculate_items_avx2\<close> and \<^verbatim>\<open>calculate_items_avx512\<close> write through \<^verbatim>\<open>results\<close>, which
  nothing in C keeps apart from the three input arrays. They are modelled on an explicit
  memory: a partial map from addresses to doubles, an address counting in units of one
  double, so that \<^verbatim>\<open>&p[i]\<close> is \<open>p + i\<close>. An address outside the map is not allocated:
  reading or writing it is undefined behaviour, \<open>None\<close> in the model.
\<close>

type_synonym 'a memory = "nat \<Rightarrow> 'a option"

definition mem_write :: "'a memory \<Rightarrow> nat \<Rightarrow> 'a \<Rightarrow> 'a memory option" where
  "mem_write h a v = (if h a = None then None else Some (h(a \<mapsto> v)))"

fun mm256_storeu_pd :: "'a memory \<Rightarrow> nat \<Rightarrow> 'a m256d \<Rightarrow> 'a memory option" where
  "mm256_storeu_pd h p (M256 x0 x1 x2 x3) =
     do {
       h \<leftarrow> mem_write h p x0;
       h \<leftarrow> mem_write h (p + 1) x1;
       h \<leftarrow> mem_write h (p + 2) x2;
       mem_write h (p + 3) x3
     }"

fun mm512_storeu_pd :: "'a memory \<Rightarrow> nat \<Rightarrow> 'a m512d \<Rightarrow> 'a memory option" where
  "mm512_storeu_pd h p (M512 x0 x1 x2 x3 x4 x5 x6 x7) =
     do {
       h \<leftarrow> mem_write h p x0;
       h \<leftarrow> mem_write h (p + 1) x1;
       h \<leftarrow> mem_write h (p + 2) x2;
       h \<leftarrow> mem_write h (p + 3) x3;
       h \<leftarrow> mem_write h (p + 4) x4;
       h \<leftarrow> mem_write h (p + 5) x5;
       h \<leftarrow> mem_write h (p + 6) x6;
       mem_write h (p + 7) x7
     }"

text \<open>The bodies of the 4-wide loop (lines 402-407, 439-444) and of the 8-wide loop (429-434).\<close>

definition items_chunk4 ::
  "'a::times memory \<Rightarrow> nat \<Rightarrow> nat \<Rightarrow> nat \<Rightarrow> nat \<Rightarrow> nat \<Rightarrow> 'a memory option" where
  "items_chunk4 h quantities unit_costs coefficients results i =
     do {
       q \<leftarrow> mm256_loadu_pd h (quantities + i);
       c \<leftarrow> mm256_loadu_pd h (unit_costs + i);
       k \<leftarrow> mm256_loadu_pd h (coefficients + i);
       let result = mm256_mul_pd (mm256_mul_pd q c) k;
       mm256_storeu_pd h (results + i) result
     }"

definition items_chunk8 ::
  "'a::times memory \<Rightarrow> nat \<Rightarrow> nat \<Rightarrow> nat \<Rightarrow> nat \<Rightarrow> nat \<Rightarrow> 'a memory option" where
  "items_chunk8 h quantities unit_costs coefficients results i =
     do {
       q \<leftarrow> mm512_loadu_pd h (quantities + i);
       c \<leftarrow> mm512_loadu_pd h (unit_costs + i);
       k \<leftarrow> mm512_loadu_pd h (coefficients + i);
       let result = mm512_mul_pd (mm512_mul_pd q c) k;
       mm512_storeu_pd h (results + i) result
     }"

text \<open>
  \<^verbatim>\<open>results[i] = quantities[i] * unit_costs[i] * coefficients[i];\<close> (lines 412, 449, 573).
\<close>

definition items_one ::
  "'a::times memory \<Rightarrow> nat \<Rightarrow> nat \<Rightarrow> nat \<Rightarrow> nat \<Rightarrow> nat \<Rightarrow> 'a memory option" where
  "items_one h quantities unit_costs coefficients results i =
     do {
       x \<leftarrow> h (quantities + i);
       y \<leftarrow> h (unit_costs + i);
       z \<leftarrow> h (coefficients + i);
       mem_write h (results + i) (x * y * z)
     }"

function items_loop8 ::
  "'a::times memory \<Rightarrow> nat \<Rightarrow> nat \<Rightarrow> nat \<Rightarrow> nat \<Rightarrow> nat \<Rightarrow> nat \<Rightarrow> ('a memory \<times> nat) option" where
  "items_loop8 h quantities unit_costs coefficients results i count =
     (if i + 8 \<le> count then
        (case items_chunk8 h quantities unit_costs coefficients results i of
           None \<Rightarrow> None
         | Some h' \<Rightarrow> items_loop8 h' quantities unit_costs coefficients results (i + 8) count)
      else Some (h, i))"
  by pat_completeness auto
termination
  by (relation "measure (\<lambda>(h, q, c, k, r, i, count). count - i)") auto

declare items_loop8.simps [simp del]

function items_loop4 ::
  "'a::times memory \<Rightarrow> nat \<Rightarrow> nat \<Rightarrow> nat \<Rightarrow> nat \<Rightarrow> nat \<Rightarrow> nat \<Rightarrow> ('a memory \<times> nat) option" where
  "items_loop4 h quantities unit_costs coefficients results i count =
     (if i + 4 \<le> count then
        (case items_chunk4 h quantities unit_costs coefficients results i of
           None \<Rightarrow> None
         | Some h' \<Rightarrow> items_loop4 h' quantities unit_costs coefficients results (i + 4) count)
      else Some (h, i))"
  by pat_completeness auto
termination
  by (relation "measure (\<lambda>(h, q, c, k, r, i, count). count - i)") auto

declare items_loop4.simps [simp del]

function items_tail ::
  "'a::times memory \<Rightarrow> nat \<Rightarrow> nat \<Rightarrow> nat \<Rightarrow> nat \<Rightarrow> nat \<Rightarrow> nat \<Rightarrow> 'a memory option" where
  "items_tail h quantities unit_costs coefficients results i count =
     (if i < count then
        (case items_one h quantities unit_costs coefficients results i of
           None \<Rightarrow> None
         | Some h' \<Rightarrow> items_tail h' quantities unit_costs coefficients results (Suc i) count)
      else Some h)"
  by pat_completeness auto
termination
  by (relation "measure (\<lambda>(h, q, c, k, r, i, count). count - i)") auto

declare items_tail.simps [simp del]

text \<open>
  \<^verbatim>\<open>calculate_items_avx2\<close>: lines 391-414 under \<^verbatim>\<open>HAS_X86_SIMD\<close>, lines 565-575 otherwise.
  The result is the memory after the call.
\<close>

definition calculate_items_avx2 ::
  "build \<Rightarrow> 'a::times memory \<Rightarrow> nat \<Rightarrow> nat \<Rightarrow> nat \<Rightarrow> nat \<Rightarrow> nat \<Rightarrow> 'a memory option" where
  "calculate_items_avx2 b h quantities unit_costs coefficients results count =
     (case b of
        Other_Arch \<Rightarrow> items_tail h quantities unit_costs coefficients results 0 count
      | _ \<Rightarrow>
          do {
            (h, i) \<leftarrow> items_loop4 h quantities unit_costs coefficients results 0 count;
            items_tail h quantities unit_costs coefficients results i count
          })"

text \<open>
  \<^verbatim>\<open>calculate_items_avx512\<close>: lines 418-451 under \<^verbatim>\<open>__AVX512F__\<close>, lines 474-482 and
  577-585 otherwise.
\<close>

definition calculate_items_avx512 ::
  "build \<Rightarrow> 'a::times memory \<Rightarrow> nat \<Rightarrow> nat \<Rightarrow> nat \<Rightarrow> nat \<Rightarrow> nat \<Rightarrow> 'a memory option" where
  "calculate_items_avx512 b h quantities unit_costs coefficients results count =
     (case b of
        X86_AVX512F \<Rightarrow>
          do {
            (h, i) \<leftarrow> items_loop8 h quantities unit_costs coefficients results 0 count;
            (h, i) \<leftarrow> items_loop4 h quantities unit_costs coefficients results i count;
            items_tail h quantities unit_costs coefficients results i count
          }
      | _ \<Rightarrow> calculate_items_avx2 b h quantities unit_costs coefficients results count)"

section \<open>Utility functions (simd_calc.c lines 674-681)\<close>

definition denidom_default_settings :: "real CalculationSettings" where
  "denidom_default_settings =
     \<lparr>overhead_rate = 0.12, profit_rate = 0.08, vat_rate = 0.20, index = 1.0\<rparr>"

section \<open>Doubles with their special values\<close>

text \<open>
  A number type for the definitions above that has the special values of an IEEE double:
  a finite value is a real number, and there are the two infinities and NaN. An operation
  on finite values is exact unless its result exceeds \<^verbatim>\<open>DBL_MAX\<close> in magnitude, and then it
  is the infinity of that sign; the operations on infinities and NaN are those of IEEE 754
  (\<open>0 * inf\<close> and \<open>inf - inf\<close> are NaN, NaN propagates). Rounding and the sign of zero are
  not modelled, and a fused multiply-add is a multiplication followed by an addition.
\<close>

definition dbl_max :: real where
  "dbl_max = (2 - 1 / 2 ^ 52) * 2 ^ 1023"

datatype double = Finite real | PInf | MInf | NaN

definition overflow :: "real \<Rightarrow> double" where
  "overflow r = (if dbl_max < r then PInf else if r < - dbl_max then MInf else Finite r)"

instantiation double :: "{zero, plus, times}"
begin

definition zero_double :: double where
  "zero_double = Finite 0"

fun plus_double :: "double \<Rightarrow> double \<Rightarrow> double" where
  "plus_double NaN y = NaN"
| "plus_double x NaN = NaN"
| "plus_double PInf MInf = NaN"
| "plus_double MInf PInf = NaN"
| "plus_double PInf y = PInf"
| "plus_double x PInf = PInf"
| "plus_double MInf y = MInf"
| "plus_double x MInf = MInf"
| "plus_double (Finite a) (Finite b) = overflow (a + b)"

fun times_double :: "double \<Rightarrow> double \<Rightarrow> double" where
  "times_double NaN y = NaN"
| "times_double x NaN = NaN"
| "times_double PInf PInf = PInf"
| "times_double PInf MInf = MInf"
| "times_double MInf PInf = MInf"
| "times_double MInf MInf = PInf"
| "times_double PInf (Finite b) = (if b = 0 then NaN else if 0 < b then PInf else MInf)"
| "times_double (Finite a) PInf = (if a = 0 then NaN else if 0 < a then PInf else MInf)"
| "times_double MInf (Finite b) = (if b = 0 then NaN else if 0 < b then MInf else PInf)"
| "times_double (Finite a) MInf = (if a = 0 then NaN else if 0 < a then MInf else PInf)"
| "times_double (Finite a) (Finite b) = overflow (a * b)"

instance ..

end

text \<open>
  \<open>is_finite x\<close>: \<open>x\<close> is a finite double. \<open>nonneg x\<close>: the C comparison \<^verbatim>\<open>x >= 0\<close>, false for
  NaN. \<open>real_of x\<close>: the value of a finite \<open>x\<close>.
\<close>

fun is_finite :: "double \<Rightarrow> bool" where
  "is_finite (Finite r) = (\<bar>r\<bar> \<le> dbl_max)"
| "is_finite x = False"



section \<open>Specification functions\<close>

text \<open>
  The functions of this section are not in the source: they say, in the words of the
  specification, what the kernels compute, and the theorems compare the code with them.
\<close>

text \<open>The sum of \<open>quantity[k] * unitCost[k]\<close> for \<open>k\<close> from \<open>i\<close> up to \<open>j - 1\<close>.\<close>

definition weighted_sum :: "real list \<Rightarrow> real list \<Rightarrow> nat \<Rightarrow> nat \<Rightarrow> real" where
  "weighted_sum qs cs i j = (\<Sum>k = i..<j. qs ! k * cs ! k)"







text \<open>
  Arrays in memory: \<open>array_at h p xs\<close> says that the cells from address \<open>p\<close> on hold the
  elements of \<open>xs\<close>; \<open>allocated h p n\<close> that the \<open>n\<close> cells from \<open>p\<close> on are allocated;
  \<open>separate p n p' n'\<close> that the \<open>n\<close> cells from \<open>p\<close> and the \<open>n'\<close> cells from \<open>p'\<close> do not
  overlap.
\<close>

definition array_at :: "'a memory \<Rightarrow> nat \<Rightarrow> 'a list \<Rightarrow> bool" where
  "array_at h p xs \<longleftrightarrow> map (\<lambda>j. h (p + j)) [0..<length xs] = map Some xs"

definition allocated :: "'a memory \<Rightarrow> nat \<Rightarrow> nat \<Rightarrow> bool" where
  "allocated h p n \<longleftrightarrow> list_all (\<lambda>j. h (p + j) \<noteq> None) [0..<n]"

definition separate :: "nat \<Rightarrow> nat \<Rightarrow> nat \<Rightarrow> nat \<Rightarrow> bool" where
  "separate p n p' n' \<longleftrightarrow> p + n \<le> p' \<or> p' + n' \<le> p"

text \<open>
  What the item kernels need: the first \<open>count\<close> cells of the three input arrays hold the
  first \<open>count\<close> elements of \<open>qs\<close>, \<open>cs\<close> and \<open>ks\<close>, the first \<open>count\<close> cells of the results
  buffer are allocated, and these cells of the results buffer overlap none of these cells
  of the inputs.
\<close>

definition items_ready ::
  "'a memory \<Rightarrow> nat \<Rightarrow> nat \<Rightarrow> nat \<Rightarrow> nat \<Rightarrow> nat \<Rightarrow> 'a list \<Rightarrow> 'a list \<Rightarrow> 'a list \<Rightarrow> bool"
  where
  "items_ready h quantities unit_costs coefficients results count qs cs ks \<longleftrightarrow>
     array_at h quantities (take count qs) \<and> array_at h unit_costs (take count cs) \<and>
     array_at h coefficients (take count ks) \<and>
     count \<le> length qs \<and> count \<le> length cs \<and> count \<le> length ks \<and>
     allocated h results count \<and>
     separate results count quantities count \<and> separate results count unit_costs count \<and>
     separate results count coefficients count"

text \<open>
  The memory \<open>h\<close> after the cells \<open>results + i\<close> up to \<open>results + j - 1\<close> have received the
  triple products of the elements of \<open>qs\<close>, \<open>cs\<close> and \<open>ks\<close> with the same indices.
\<close>

definition items_written ::
  "'a::times memory \<Rightarrow> nat \<Rightarrow> nat \<Rightarrow> nat \<Rightarrow> 'a list \<Rightarrow> 'a list \<Rightarrow> 'a list \<Rightarrow> 'a memory"
  where
  "items_written h results i j qs cs ks =
     (\<lambda>a. if results + i \<le> a \<and> a < results + j
          then Some (qs ! (a - results) * cs ! (a - results) * ks ! (a - results))
          else h a)"

text \<open>The memory that holds the list \<open>xs\<close> from address 0 on, and nothing else.\<close>

definition memory_of :: "'a list \<Rightarrow> 'a memory" where
  "memory_of xs = (\<lambda>a. if a < length xs then Some (xs ! a) else None)"








text \<open>
  A processor for the examples: CPUID leaf 0 returns \<open>max_leaf\<close> in EAX, leaf 7 with
  subleaf 0 returns \<open>features\<close> in EBX, everything else is 0.
\<close>

definition cpu_example :: "32 word \<Rightarrow> 32 word \<Rightarrow> cpu" where
  "cpu_example max_leaf features =
     (\<lambda>func sub.
        if func = 0 then \<lparr>eax = max_leaf, ebx = 0, ecx = 0, edx = 0\<rparr>
        else if func = 7 \<and> sub = 0 then \<lparr>eax = 0, ebx = features, ecx = 0, edx = 0\<rparr>
        else \<lparr>eax = 0, ebx = 0, ecx = 0, edx = 0\<rparr>)"

section \<open>Verification\<close>

subsection \<open>Weighted sums and the loops of the estimate tiers\<close>

lemma weighted_sum_empty [simp]: "j \<le> i \<Longrightarrow> weighted_sum qs cs i j = 0"
  by (simp add: weighted_sum_def)
























subsection \<open>Every estimate tier in closed form\<close>








subsection \<open>Equivalence of the tiers, delegation and dispatch\<close>


lemmas estimate_eval =
  calculate_estimate_scalar_def scalar_loop.simps scalar_item_def array_read_def
  zero_result_def denidom_default_settings_def Let_def
  calculate_estimate_avx2_def calculate_estimate_avx2_x86_def avx2_loop.simps avx2_chunk_def
  mm256_loadu_pd_def zero_accumulators256_def mm256_setzero_pd_def hsum256_pd_def
  calculate_estimate_avx512_def calculate_estimate_avx512_avx512f_def avx512_loop.simps
  avx512_chunk_def mm512_loadu_pd_def zero_accumulators512_def mm512_setzero_pd_def
  avx512_remainder_def avx512_rem_loop.simps


text \<open>
  The length hypotheses are needed: with a \<open>labor_unit\<close> array of 12 elements and
  \<open>count = 13\<close> the call reads beyond the array.
\<close>

lemma estimate_short_array_example:
  "calculate_estimate_avx512 X86_AVX512F [1, 2, 3, 4, 5, 6, 7, 8, 9, 10, 11, 12, 13]
     [1, 1, 1, 1, 1, 1, 1, 1, 1, 1, 1, 1, 1] [2, 0, 2, 0, 2, 0, 2, 0, 2, 0, 2, 0]
     [0, 1, 0, 1, 0, 1, 0, 1, 0, 1, 0, 1, 0] [3, 3, 3, 3, 3, 3, 3, 3, 3, 3, 3, 3, 3]
     [1, 2, 1, 2, 1, 2, 1, 2, 1, 2, 1, 2, 1] 13 denidom_default_settings = None"
  by (simp add: estimate_eval)

text \<open>
  The scenario of the specification: two line items under the default settings, in the
  scalar tier and through the dispatcher on a processor with AVX-512.
\<close>

lemma estimate_scenario_example:
  "calculate_estimate_scalar [1, 2] [100, 50] [10, 10] [0, 0] [0, 0] [0, 0] 2
     denidom_default_settings =
   Some \<lparr>direct_costs = 200, labor_costs = 30, machine_op_costs = 0, material_costs = 0,
         machine_costs = 0, overhead = 3.6, profit = 2.4, subtotal = 206, vat = 41.2,
         total' = 247.2\<rparr>"
  "calculate_estimate_auto X86_AVX512F (cpu_example 13 65568) [1, 2] [100, 50] [10, 10] [0, 0]
     [0, 0] [0, 0] 2 denidom_default_settings =
   Some \<lparr>direct_costs = 200, labor_costs = 30, machine_op_costs = 0, material_costs = 0,
         machine_costs = 0, overhead = 3.6, profit = 2.4, subtotal = 206, vat = 41.2,
         total' = 247.2\<rparr>"
  by (simp_all add: estimate_eval calculate_estimate_auto_def denidom_has_avx512_def
      get_cpuid_def get_cpuid_ex_def cpu_example_def)

text \<open>
  Claim C2. Below its native width a tier hands the whole call to the next tier down and
  returns its result unchanged: \<open>calculate_estimate_avx2\<close> with \<open>count < 4\<close> is
  \<open>calculate_estimate_scalar\<close>, and \<open>calculate_estimate_avx512\<close> with \<open>count < 8\<close> is
  \<open>calculate_estimate_avx2\<close>, on the same arguments. This holds for every arithmetic and
  every build configuration, and also where the call reads beyond an array.
\<close>

theorem small_count_delegates:
  "(count < 4 \<longrightarrow>
      calculate_estimate_avx2 b quantities direct_unit labor_unit machine_op_unit material_unit
        machine_unit count settings =
      calculate_estimate_scalar quantities direct_unit labor_unit machine_op_unit
        material_unit machine_unit count settings) \<and>
   (count < 8 \<longrightarrow>
      calculate_estimate_avx512 b quantities direct_unit labor_unit machine_op_unit
        material_unit machine_unit count settings =
      calculate_estimate_avx2 b quantities direct_unit labor_unit machine_op_unit
        material_unit machine_unit count settings)"
  by (cases b)
     (simp_all add: calculate_estimate_avx2_def calculate_estimate_avx2_x86_def
        calculate_estimate_avx512_def calculate_estimate_avx512_avx512f_def)

theorem small_count_delegates_witness:
  "(3::nat) < 4 \<and> (3::nat) < 8 \<and>
   calculate_estimate_avx2 X86_AVX512F [1, 2, 3] [100, 50, 10] [10, 10, 10] [0, 0, 1]
     [0, 5, 0] [2, 0, 0] 3 denidom_default_settings =
   calculate_estimate_scalar [1, 2, 3] [100, 50, 10] [10, 10, 10] [0, 0, 1]
     [0, 5, 0] [2, 0, 0] 3 denidom_default_settings \<and>
   calculate_estimate_avx512 X86_AVX512F [1, 2, 3] [100, 50, 10] [10, 10, 10] [0, 0, 1]
     [0, 5, 0] [2, 0, 0] 3 denidom_default_settings =
   calculate_estimate_avx2 X86_AVX512F [1, 2, 3] [100, 50, 10] [10, 10, 10] [0, 0, 1]
     [0, 5, 0] [2, 0, 0] 3 denidom_default_settings \<and>
   calculate_estimate_scalar [1, 2, 3] [100, 50, 10] [10, 10, 10] [0, 0, 1]
     [0, 5, 0] [2, 0, 0] 3 denidom_default_settings =
   Some \<lparr>direct_costs = 230, labor_costs = 60, machine_op_costs = 3, material_costs = 10,
         machine_costs = 2, overhead = 189 / 25, profit = 126 / 25, subtotal = 1213 / 5,
         vat = 1213 / 25, total' = 7278 / 25\<rparr>"
proof -
  have s: "calculate_estimate_scalar [1, 2, 3] [100, 50, 10] [10, 10, 10] [0, 0, 1]
     [0, 5, 0] [2, 0, 0] 3 denidom_default_settings =
   Some \<lparr>direct_costs = 230, labor_costs = 60, machine_op_costs = 3, material_costs = 10,
         machine_costs = 2, overhead = 189 / 25, profit = 126 / 25, subtotal = 1213 / 5,
         vat = 1213 / 25, total' = 7278 / 25 :: real\<rparr>"
    by (simp add: estimate_eval)
  show ?thesis
    using small_count_delegates [of 3 X86_AVX512F "[1, 2, 3]" "[100, 50, 10]" "[10, 10, 10]"
      "[0, 0, 1]" "[0, 5, 0]" "[2, 0, 0]" denidom_default_settings]
    by (simp add: s)
qed

text \<open>
  Claim C3. \<open>calculate_estimate_auto\<close> forwards its arguments unchanged to exactly one tier
  and returns that tier's result: AVX-512 when \<open>denidom_has_avx512\<close> holds, else AVX2 when
  \<open>denidom_has_avx2\<close> holds, else scalar. It has no state of its own: its result is a
  function of the processor it is called on, so the probe is asked at every call, and
  two processors on which the two probes answer the same give the same result.
\<close>

theorem auto_selects_by_probe:
  "calculate_estimate_auto b c quantities direct_unit labor_unit machine_op_unit material_unit
     machine_unit count settings =
   (if denidom_has_avx512 b c then
      calculate_estimate_avx512 b quantities direct_unit labor_unit machine_op_unit
        material_unit machine_unit count settings
    else if denidom_has_avx2 b c then
      calculate_estimate_avx2 b quantities direct_unit labor_unit machine_op_unit
        material_unit machine_unit count settings
    else
      calculate_estimate_scalar quantities direct_unit labor_unit machine_op_unit
        material_unit machine_unit count settings) \<and>
   (denidom_has_avx512 b c = denidom_has_avx512 b c' \<and>
    denidom_has_avx2 b c = denidom_has_avx2 b c' \<longrightarrow>
      calculate_estimate_auto b c quantities direct_unit labor_unit machine_op_unit
        material_unit machine_unit count settings =
      calculate_estimate_auto b c' quantities direct_unit labor_unit machine_op_unit
        material_unit machine_unit count settings)"
  by (simp add: calculate_estimate_auto_def)

theorem auto_selects_by_probe_witness:
  "\<not> denidom_has_avx512 X86_AVX2 (cpu_example 13 32) \<and>
   denidom_has_avx2 X86_AVX2 (cpu_example 13 32) \<and>
   \<not> denidom_has_avx512 X86_AVX2 (cpu_example 20 40) \<and>
   denidom_has_avx2 X86_AVX2 (cpu_example 20 40) \<and>
   calculate_estimate_auto X86_AVX2 (cpu_example 13 32) [1, 2, 3, 4, 5] [1, 1, 1, 1, 1]
     [2, 0, 2, 0, 2] [0, 1, 0, 1, 0] [3, 3, 3, 3, 3] [1, 2, 1, 2, 1] 5
     denidom_default_settings =
   calculate_estimate_avx2 X86_AVX2 [1, 2, 3, 4, 5] [1, 1, 1, 1, 1]
     [2, 0, 2, 0, 2] [0, 1, 0, 1, 0] [3, 3, 3, 3, 3] [1, 2, 1, 2, 1] 5
     denidom_default_settings \<and>
   calculate_estimate_auto X86_AVX2 (cpu_example 13 32) [1, 2, 3, 4, 5] [1, 1, 1, 1, 1]
     [2, 0, 2, 0, 2] [0, 1, 0, 1, 0] [3, 3, 3, 3, 3] [1, 2, 1, 2, 1] 5
     denidom_default_settings =
   calculate_estimate_auto X86_AVX2 (cpu_example 20 40) [1, 2, 3, 4, 5] [1, 1, 1, 1, 1]
     [2, 0, 2, 0, 2] [0, 1, 0, 1, 0] [3, 3, 3, 3, 3] [1, 2, 1, 2, 1] 5
     denidom_default_settings \<and>
   calculate_estimate_avx2 X86_AVX2 [1, 2, 3, 4, 5] [1, 1, 1, 1, 1]
     [2, 0, 2, 0, 2] [0, 1, 0, 1, 0] [3, 3, 3, 3, 3] [1, 2, 1, 2, 1] 5
     denidom_default_settings =
   Some \<lparr>direct_costs = 15, labor_costs = 18, machine_op_costs = 6, material_costs = 45,
         machine_costs = 21, overhead = 72 / 25, profit = 48 / 25, subtotal = 99 / 5,
         vat = 99 / 25, total' = 594 / 25\<rparr>"
proof -
  have p: "\<not> denidom_has_avx512 X86_AVX2 (cpu_example 13 32)"
    "denidom_has_avx2 X86_AVX2 (cpu_example 13 32)"
    "\<not> denidom_has_avx512 X86_AVX2 (cpu_example 20 40)"
    "denidom_has_avx2 X86_AVX2 (cpu_example 20 40)"
    by (simp_all add: denidom_has_avx512_def denidom_has_avx2_def get_cpuid_def
        get_cpuid_ex_def cpu_example_def)
  have v: "calculate_estimate_avx2 X86_AVX2 [1, 2, 3, 4, 5] [1, 1, 1, 1, 1]
     [2, 0, 2, 0, 2] [0, 1, 0, 1, 0] [3, 3, 3, 3, 3] [1, 2, 1, 2, 1] 5
     denidom_default_settings =
   Some \<lparr>direct_costs = 15, labor_costs = 18, machine_op_costs = 6, material_costs = 45,
         machine_costs = 21, overhead = 72 / 25, profit = 48 / 25, subtotal = 99 / 5,
         vat = 99 / 25, total' = 594 / 25 :: real\<rparr>"
    by (simp add: estimate_eval)
  show ?thesis
    using auto_selects_by_probe [of X86_AVX2 "cpu_example 13 32" "[1, 2, 3, 4, 5]"
      "[1, 1, 1, 1, 1]" "[2, 0, 2, 0, 2]" "[0, 1, 0, 1, 0]" "[3, 3, 3, 3, 3]"
      "[1, 2, 1, 2, 1]" 5 denidom_default_settings "cpu_example 20 40"] p
    by (auto simp: v)
qed

subsection \<open>Properties of the result record\<close>

lemma scalar_exact:
  "calculate_estimate_scalar q d l mo mat m count s = Some r \<Longrightarrow>
     subtotal r = direct_costs r + overhead r + profit r \<and> total' r = subtotal r + vat r"
  by (auto simp: calculate_estimate_scalar_def Let_def split: Option.bind_splits)

lemma avx2_x86_exact:
  "calculate_estimate_avx2_x86 q d l mo mat m count s = Some r \<Longrightarrow>
     subtotal r = direct_costs r + overhead r + profit r \<and> total' r = subtotal r + vat r"
  by (auto simp: calculate_estimate_avx2_x86_def Let_def scalar_exact
      split: Option.bind_splits if_splits)

lemma avx2_exact:
  "calculate_estimate_avx2 b q d l mo mat m count s = Some r \<Longrightarrow>
     subtotal r = direct_costs r + overhead r + profit r \<and> total' r = subtotal r + vat r"
  by (cases b) (simp_all add: calculate_estimate_avx2_def scalar_exact avx2_x86_exact)

lemma avx512f_exact:
  "calculate_estimate_avx512_avx512f q d l mo mat m count s = Some r \<Longrightarrow>
     subtotal r = direct_costs r + overhead r + profit r \<and> total' r = subtotal r + vat r"
  by (auto simp: calculate_estimate_avx512_avx512f_def Let_def avx2_exact
      split: Option.bind_splits if_splits prod.splits)

lemma avx512_exact:
  "calculate_estimate_avx512 b q d l mo mat m count s = Some r \<Longrightarrow>
     subtotal r = direct_costs r + overhead r + profit r \<and> total' r = subtotal r + vat r"
  by (cases b)
     (simp_all add: calculate_estimate_avx512_def scalar_exact avx2_exact avx512f_exact)

lemma auto_exact:
  "calculate_estimate_auto b c q d l mo mat m count s = Some r \<Longrightarrow>
     subtotal r = direct_costs r + overhead r + profit r \<and> total' r = subtotal r + vat r"
  by (simp add: calculate_estimate_auto_def scalar_exact avx2_exact avx512_exact
      split: if_splits)

text \<open>
  Claim C4. Every result returned by the scalar, AVX2, AVX-512 or auto tier satisfies
  \<open>subtotal = direct_costs + overhead + profit\<close> and \<open>total = subtotal + vat\<close> as equalities
  of the stored fields. The type of the numbers is arbitrary and no law of its \<open>+\<close> and \<open>*\<close>
  is used: the right-hand sides are the very expressions the code stores.
\<close>

theorem subtotal_and_total_exact:
  "(calculate_estimate_scalar quantities direct_unit labor_unit machine_op_unit material_unit
      machine_unit count settings = Some r \<or>
    calculate_estimate_avx2 b quantities direct_unit labor_unit machine_op_unit material_unit
      machine_unit count settings = Some r \<or>
    calculate_estimate_avx512 b quantities direct_unit labor_unit machine_op_unit material_unit
      machine_unit count settings = Some r \<or>
    calculate_estimate_auto b c quantities direct_unit labor_unit machine_op_unit material_unit
      machine_unit count settings = Some r) \<longrightarrow>
   subtotal r = direct_costs r + overhead r + profit r \<and> total' r = subtotal r + vat r"
  using scalar_exact [of quantities direct_unit labor_unit machine_op_unit material_unit
      machine_unit count settings r]
    avx2_exact [of b quantities direct_unit labor_unit machine_op_unit material_unit
      machine_unit count settings r]
    avx512_exact [of b quantities direct_unit labor_unit machine_op_unit material_unit
      machine_unit count settings r]
    auto_exact [of b c quantities direct_unit labor_unit machine_op_unit material_unit
      machine_unit count settings r]
  by blast

theorem subtotal_and_total_exact_witness:
  "calculate_estimate_avx512 X86_AVX512F [1, 2, 3, 4, 5, 6, 7, 8, 9, 10, 11, 12, 13]
     [1, 1, 1, 1, 1, 1, 1, 1, 1, 1, 1, 1, 1] [2, 0, 2, 0, 2, 0, 2, 0, 2, 0, 2, 0, 2]
     [0, 1, 0, 1, 0, 1, 0, 1, 0, 1, 0, 1, 0] [3, 3, 3, 3, 3, 3, 3, 3, 3, 3, 3, 3, 3]
     [1, 2, 1, 2, 1, 2, 1, 2, 1, 2, 1, 2, 1] 13 denidom_default_settings =
   Some \<lparr>direct_costs = 91, labor_costs = 98, machine_op_costs = 42, material_costs = 273,
         machine_costs = 133, overhead = 84 / 5, profit = 56 / 5, subtotal = 119,
         vat = 119 / 5, total' = 714 / 5\<rparr> \<and>
   subtotal \<lparr>direct_costs = 91, labor_costs = 98, machine_op_costs = 42, material_costs = 273,
         machine_costs = 133, overhead = 84 / 5, profit = 56 / 5, subtotal = 119,
         vat = 119 / 5, total' = 714 / 5 :: real\<rparr> = 91 + 84 / 5 + 56 / 5 \<and>
   total' \<lparr>direct_costs = 91, labor_costs = 98, machine_op_costs = 42, material_costs = 273,
         machine_costs = 133, overhead = 84 / 5, profit = 56 / 5, subtotal = 119,
         vat = 119 / 5, total' = 714 / 5 :: real\<rparr> = 119 + 119 / 5"
proof -
  have v: "calculate_estimate_avx512 X86_AVX512F [1, 2, 3, 4, 5, 6, 7, 8, 9, 10, 11, 12, 13]
     [1, 1, 1, 1, 1, 1, 1, 1, 1, 1, 1, 1, 1] [2, 0, 2, 0, 2, 0, 2, 0, 2, 0, 2, 0, 2]
     [0, 1, 0, 1, 0, 1, 0, 1, 0, 1, 0, 1, 0] [3, 3, 3, 3, 3, 3, 3, 3, 3, 3, 3, 3, 3]
     [1, 2, 1, 2, 1, 2, 1, 2, 1, 2, 1, 2, 1] 13 denidom_default_settings =
   Some \<lparr>direct_costs = 91, labor_costs = 98, machine_op_costs = 42, material_costs = 273,
         machine_costs = 133, overhead = 84 / 5, profit = 56 / 5, subtotal = 119,
         vat = 119 / 5, total' = 714 / 5 :: real\<rparr>"
    by (simp add: estimate_eval)
  show ?thesis
    using subtotal_and_total_exact [of "[1, 2, 3, 4, 5, 6, 7, 8, 9, 10, 11, 12, 13]"
     "[1, 1, 1, 1, 1, 1, 1, 1, 1, 1, 1, 1, 1]" "[2, 0, 2, 0, 2, 0, 2, 0, 2, 0, 2, 0, 2]"
     "[0, 1, 0, 1, 0, 1, 0, 1, 0, 1, 0, 1, 0]" "[3, 3, 3, 3, 3, 3, 3, 3, 3, 3, 3, 3, 3]"
     "[1, 2, 1, 2, 1, 2, 1, 2, 1, 2, 1, 2, 1]" 13 denidom_default_settings
     "\<lparr>direct_costs = 91, labor_costs = 98, machine_op_costs = 42, material_costs = 273,
         machine_costs = 133, overhead = 84 / 5, profit = 56 / 5, subtotal = 119,
         vat = 119 / 5, total' = 714 / 5\<rparr>" X86_AVX512F] v
    by simp
qed

lemma scalar_loop_stop: "count \<le> i \<Longrightarrow> scalar_loop q d l mo mat m i count r = Some r"
  by (subst scalar_loop.simps) simp






subsection \<open>Sums and dot product\<close>
















lemmas sum_eval =
  fast_sum_avx2_def fast_sum_avx512_def dot_product_simd_def sum_tail.simps
  fast_sum_avx2_loop.simps fast_sum_avx512_loop.simps dot_product_loop.simps
  dot_product_tail.simps array_read_def mm256_loadu_pd_def mm512_loadu_pd_def
  mm256_setzero_pd_def mm512_setzero_pd_def hsum256_pd_def Let_def


subsection \<open>The item kernels write only the results\<close>

lemma mem_write_Some:
  "mem_write h a v = Some h' \<longleftrightarrow> h a \<noteq> None \<and> h' = h(a \<mapsto> v)"
  by (auto simp: mem_write_def)

lemma mm256_storeu_Some:
  "mm256_storeu_pd h p (M256 x0 x1 x2 x3) = Some h' \<longleftrightarrow>
     h p \<noteq> None \<and> h (p + 1) \<noteq> None \<and> h (p + 2) \<noteq> None \<and> h (p + 3) \<noteq> None \<and>
     h' = h(p \<mapsto> x0, p + 1 \<mapsto> x1, p + 2 \<mapsto> x2, p + 3 \<mapsto> x3)"
  by (auto simp: mem_write_def split: Option.bind_splits if_splits)

lemma mm512_storeu_Some:
  "mm512_storeu_pd h p (M512 x0 x1 x2 x3 x4 x5 x6 x7) = Some h' \<longleftrightarrow>
     h p \<noteq> None \<and> h (p + 1) \<noteq> None \<and> h (p + 2) \<noteq> None \<and> h (p + 3) \<noteq> None \<and>
     h (p + 4) \<noteq> None \<and> h (p + 5) \<noteq> None \<and> h (p + 6) \<noteq> None \<and> h (p + 7) \<noteq> None \<and>
     h' = h(p \<mapsto> x0, p + 1 \<mapsto> x1, p + 2 \<mapsto> x2, p + 3 \<mapsto> x3,
            p + 4 \<mapsto> x4, p + 5 \<mapsto> x5, p + 6 \<mapsto> x6, p + 7 \<mapsto> x7)"
  by (auto simp: mem_write_def split: Option.bind_splits if_splits)

lemma mm256_storeu_frame:
  assumes "mm256_storeu_pd h p v = Some h'" "a < p \<or> p + 4 \<le> a"
  shows "h' a = h a"
proof (cases v)
  case (M256 x0 x1 x2 x3)
  with assms(1) have "h' = h(p \<mapsto> x0, p + 1 \<mapsto> x1, p + 2 \<mapsto> x2, p + 3 \<mapsto> x3)"
    by (simp only: mm256_storeu_Some)
  then show ?thesis
    using assms(2) by auto
qed

lemma mm512_storeu_frame:
  assumes "mm512_storeu_pd h p v = Some h'" "a < p \<or> p + 8 \<le> a"
  shows "h' a = h a"
proof (cases v)
  case (M512 x0 x1 x2 x3 x4 x5 x6 x7)
  with assms(1) have "h' = h(p \<mapsto> x0, p + 1 \<mapsto> x1, p + 2 \<mapsto> x2, p + 3 \<mapsto> x3,
            p + 4 \<mapsto> x4, p + 5 \<mapsto> x5, p + 6 \<mapsto> x6, p + 7 \<mapsto> x7)"
    by (simp only: mm512_storeu_Some)
  then show ?thesis
    using assms(2) by auto
qed

lemma items_one_frame:
  assumes "items_one h q c k r i = Some h'" "a \<noteq> r + i"
  shows "h' a = h a"
  using assms by (auto simp: items_one_def mem_write_Some split: Option.bind_splits)

lemma items_chunk4_frame:
  assumes "items_chunk4 h q c k r i = Some h'" "a < r + i \<or> r + i + 4 \<le> a"
  shows "h' a = h a"
  using assms
  by (auto simp: items_chunk4_def Let_def split: Option.bind_splits dest: mm256_storeu_frame)

lemma items_chunk8_frame:
  assumes "items_chunk8 h q c k r i = Some h'" "a < r + i \<or> r + i + 8 \<le> a"
  shows "h' a = h a"
  using assms
  by (auto simp: items_chunk8_def Let_def split: Option.bind_splits dest: mm512_storeu_frame)

lemma items_tail_frame:
  assumes "items_tail h q c k r i count = Some h'" "a < r + i \<or> r + count \<le> a"
  shows "h' a = h a"
  using assms
proof (induction h q c k r i count arbitrary: h' rule: items_tail.induct)
  case (1 h q c k r i count)
  show ?case
  proof (cases "i < count")
    case True
    then obtain h1 where one: "items_one h q c k r i = Some h1"
      and rest: "items_tail h1 q c k r (Suc i) count = Some h'"
      using "1.prems"(1) by (subst (asm) items_tail.simps) (auto split: option.splits)
    have "h' a = h1 a"
      using "1.IH" [OF True one rest] "1.prems"(2) by auto
    also have "\<dots> = h a"
      using items_one_frame [OF one] "1.prems"(2) True by auto
    finally show ?thesis .
  next
    case False
    then show ?thesis
      using "1.prems"(1) by (subst (asm) items_tail.simps) simp
  qed
qed

lemma items_loop4_frame:
  assumes "items_loop4 h q c k r i count = Some (h', i')" "a < r + i \<or> r + count \<le> a"
  shows "h' a = h a \<and> i \<le> i'"
  using assms
proof (induction h q c k r i count arbitrary: h' i' rule: items_loop4.induct)
  case (1 h q c k r i count)
  show ?case
  proof (cases "i + 4 \<le> count")
    case True
    then obtain h1 where one: "items_chunk4 h q c k r i = Some h1"
      and rest: "items_loop4 h1 q c k r (i + 4) count = Some (h', i')"
      using "1.prems"(1) by (subst (asm) items_loop4.simps) (auto split: option.splits)
    have "h' a = h1 a \<and> i + 4 \<le> i'"
      using "1.IH" [OF True one rest] "1.prems"(2) by auto
    moreover have "h1 a = h a"
      using items_chunk4_frame [OF one] "1.prems"(2) True by auto
    ultimately show ?thesis by simp
  next
    case False
    then show ?thesis
      using "1.prems"(1) by (subst (asm) items_loop4.simps) simp
  qed
qed

lemma items_loop8_frame:
  assumes "items_loop8 h q c k r i count = Some (h', i')" "a < r + i \<or> r + count \<le> a"
  shows "h' a = h a \<and> i \<le> i'"
  using assms
proof (induction h q c k r i count arbitrary: h' i' rule: items_loop8.induct)
  case (1 h q c k r i count)
  show ?case
  proof (cases "i + 8 \<le> count")
    case True
    then obtain h1 where one: "items_chunk8 h q c k r i = Some h1"
      and rest: "items_loop8 h1 q c k r (i + 8) count = Some (h', i')"
      using "1.prems"(1) by (subst (asm) items_loop8.simps) (auto split: option.splits)
    have "h' a = h1 a \<and> i + 8 \<le> i'"
      using "1.IH" [OF True one rest] "1.prems"(2) by auto
    moreover have "h1 a = h a"
      using items_chunk8_frame [OF one] "1.prems"(2) True by auto
    ultimately show ?thesis by simp
  next
    case False
    then show ?thesis
      using "1.prems"(1) by (subst (asm) items_loop8.simps) simp
  qed
qed

lemma calculate_items_avx2_frame:
  assumes "calculate_items_avx2 b h q c k r count = Some h'" "a < r \<or> r + count \<le> a"
  shows "h' a = h a"
proof (cases "b = Other_Arch")
  case True
  then show ?thesis
    using assms items_tail_frame [of h q c k r 0 count h' a]
    by (simp add: calculate_items_avx2_def)
next
  case False
  then obtain h1 i1 where l: "items_loop4 h q c k r 0 count = Some (h1, i1)"
    and t: "items_tail h1 q c k r i1 count = Some h'"
    using assms(1)
    by (cases b) (auto simp: calculate_items_avx2_def split: Option.bind_splits)
  have "h1 a = h a"
    using items_loop4_frame [OF l, of a] assms(2) by simp
  moreover have "h' a = h1 a"
    using items_tail_frame [OF t, of a] assms(2) by auto
  ultimately show ?thesis by simp
qed

lemma calculate_items_avx512_frame:
  assumes "calculate_items_avx512 b h q c k r count = Some h'" "a < r \<or> r + count \<le> a"
  shows "h' a = h a"
proof (cases "b = X86_AVX512F")
  case False
  then show ?thesis
    using assms calculate_items_avx2_frame [of b h q c k r count h' a]
    by (cases b) (simp_all add: calculate_items_avx512_def)
next
  case True
  then obtain h1 i1 h2 i2 where l8: "items_loop8 h q c k r 0 count = Some (h1, i1)"
    and l4: "items_loop4 h1 q c k r i1 count = Some (h2, i2)"
    and t: "items_tail h2 q c k r i2 count = Some h'"
    using assms(1)
    by (auto simp: calculate_items_avx512_def split: Option.bind_splits)
  have "h1 a = h a"
    using items_loop8_frame [OF l8, of a] assms(2) by simp
  moreover have "h2 a = h1 a"
    using items_loop4_frame [OF l4, of a] assms(2) by auto
  moreover have "h' a = h2 a"
    using items_tail_frame [OF t, of a] assms(2) by auto
  ultimately show ?thesis by simp
qed

text \<open>
  Claim C10. A call of \<open>calculate_items_avx2\<close> or \<open>calculate_items_avx512\<close> that returns
  changes no cell of the memory outside \<open>results[0..count)\<close>: the cells of the results
  buffer from index \<open>count\<close> on keep their values, and so does every array that does not
  overlap \<open>results[0..count)\<close>, the three input arrays among them.
\<close>

theorem items_write_only_results:
  "(calculate_items_avx2 b h quantities unit_costs coefficients results count = Some h' \<or>
    calculate_items_avx512 b h quantities unit_costs coefficients results count = Some h') \<longrightarrow>
   (a < results \<or> results + count \<le> a \<longrightarrow> h' a = h a) \<and>
   (count \<le> i \<longrightarrow> h' (results + i) = h (results + i)) \<and>
   (separate results count p n \<and> j < n \<longrightarrow> h' (p + j) = h (p + j))"
proof (intro impI conjI)
  assume r: "calculate_items_avx2 b h quantities unit_costs coefficients results count = Some h' \<or>
    calculate_items_avx512 b h quantities unit_costs coefficients results count = Some h'"
  have frame: "h' x = h x" if "x < results \<or> results + count \<le> x" for x
    using r that calculate_items_avx2_frame calculate_items_avx512_frame by blast
  show "h' a = h a" if "a < results \<or> results + count \<le> a"
    using that by (rule frame)
  show "h' (results + i) = h (results + i)" if "count \<le> i"
    using that by (intro frame) simp
  show "h' (p + j) = h (p + j)" if "separate results count p n \<and> j < n"
    using that by (intro frame) (auto simp: separate_def)
qed

lemmas items_eval =
  calculate_items_avx2_def calculate_items_avx512_def items_loop4.simps items_loop8.simps
  items_tail.simps items_chunk4_def items_chunk8_def items_one_def mm256_loadu_pd_def
  mm512_loadu_pd_def mem_write_def memory_of_def Let_def

theorem items_write_only_results_witness:
  "calculate_items_avx2 X86_AVX2
     (memory_of [2, 3, 4, 5, 6, 7, 1, 1, 1, 1, 1, 1, 10, 10, 10, 10, 10, 10, 9, 9, 9, 9, 9, 9 :: real])
     0 6 12 18 5 =
   Some ((memory_of [2, 3, 4, 5, 6, 7, 1, 1, 1, 1, 1, 1, 10, 10, 10, 10, 10, 10, 9, 9, 9, 9, 9, 9])
           (18 \<mapsto> 20, 19 \<mapsto> 30, 20 \<mapsto> 40, 21 \<mapsto> 50, 22 \<mapsto> 60)) \<and>
   ((memory_of [2, 3, 4, 5, 6, 7, 1, 1, 1, 1, 1, 1, 10, 10, 10, 10, 10, 10, 9, 9, 9, 9, 9, 9 :: real])
           (18 \<mapsto> 20, 19 \<mapsto> 30, 20 \<mapsto> 40, 21 \<mapsto> 50, 22 \<mapsto> 60)) (18 + 5) = Some 9 \<and>
   separate 18 5 0 6 \<and>
   ((memory_of [2, 3, 4, 5, 6, 7, 1, 1, 1, 1, 1, 1, 10, 10, 10, 10, 10, 10, 9, 9, 9, 9, 9, 9 :: real])
           (18 \<mapsto> 20, 19 \<mapsto> 30, 20 \<mapsto> 40, 21 \<mapsto> 50, 22 \<mapsto> 60)) (0 + 3) = Some 5"
proof -
  let ?h = "memory_of [2, 3, 4, 5, 6, 7, 1, 1, 1, 1, 1, 1, 10, 10, 10, 10, 10, 10, 9, 9, 9, 9, 9, 9 :: real]"
  have v: "calculate_items_avx2 X86_AVX2 ?h 0 6 12 18 5 =
     Some (?h(18 \<mapsto> 20, 19 \<mapsto> 30, 20 \<mapsto> 40, 21 \<mapsto> 50, 22 \<mapsto> 60))"
    by (simp add: items_eval)
  have s: "separate 18 5 0 6" "?h (18 + 5) = Some 9" "?h (0 + 3) = Some 5"
    by (simp_all add: separate_def memory_of_def)
  show ?thesis
    using items_write_only_results [of X86_AVX2 ?h 0 6 12 18 5
        "?h(18 \<mapsto> 20, 19 \<mapsto> 30, 20 \<mapsto> 40, 21 \<mapsto> 50, 22 \<mapsto> 60)" "18 + 5" 5 0 6 3] v s
    by simp
qed

subsection \<open>The item kernels compute the triple products\<close>

lemma array_at_nth: "array_at h p xs \<Longrightarrow> j < length xs \<Longrightarrow> h (p + j) = Some (xs ! j)"
proof -
  assume a: "array_at h p xs" and j: "j < length xs"
  then have "map (\<lambda>j. h (p + j)) [0..<length xs] ! j = map Some xs ! j"
    by (simp add: array_at_def)
  then show ?thesis
    using j by simp
qed

lemma array_atI: "(\<And>j. j < length xs \<Longrightarrow> h (p + j) = Some (xs ! j)) \<Longrightarrow> array_at h p xs"
  unfolding array_at_def by (rule nth_equalityI) simp_all

lemma allocated_iff: "allocated h p n \<longleftrightarrow> (\<forall>j<n. h (p + j) \<noteq> None)"
  by (auto simp: allocated_def list_all_iff)

lemma ready_reads:
  assumes "items_ready h q c k r count qs cs ks" "j < count"
  shows "h (q + j) = Some (qs ! j)" "h (c + j) = Some (cs ! j)" "h (k + j) = Some (ks ! j)"
    "h (r + j) \<noteq> None"
  using assms array_at_nth [of h q "take count qs" j] array_at_nth [of h c "take count cs" j]
    array_at_nth [of h k "take count ks" j]
  by (simp_all add: items_ready_def allocated_iff)

lemma written_out: "a < r + i \<or> r + j \<le> a \<Longrightarrow> items_written h r i j qs cs ks a = h a"
  by (auto simp: items_written_def)

lemma written_compose:
  "i \<le> j \<Longrightarrow> j \<le> k \<Longrightarrow>
   items_written (items_written h r i j qs cs ks) r j k qs cs ks = items_written h r i k qs cs ks"
  by (auto simp: items_written_def fun_eq_iff)

lemma ready_written:
  assumes "items_ready h q c k r count qs cs ks" "j \<le> count"
  shows "items_ready (items_written h r i j qs cs ks) q c k r count qs cs ks"
proof -
  let ?h = "items_written h r i j qs cs ks"
  have keep: "?h (p + x) = h (p + x)" if "separate r count p count" "x < count" for p x
    using that assms(2) by (intro written_out) (auto simp: separate_def)
  have "array_at ?h q (take count qs)" "array_at ?h c (take count cs)"
    "array_at ?h k (take count ks)"
    using assms(1) by (auto intro!: array_atI simp: keep items_ready_def dest: array_at_nth)
  moreover have "allocated ?h r count"
    using assms(1) by (auto simp: items_ready_def allocated_iff items_written_def)
  ultimately show ?thesis
    using assms(1) by (simp add: items_ready_def)
qed

lemma items_one_ready:
  assumes "items_ready h q c k r count qs cs ks" "i < count"
  shows "items_one h q c k r i = Some (items_written h r i (Suc i) qs cs ks)"
proof -
  have "h(r + i \<mapsto> qs ! i * cs ! i * ks ! i) = items_written h r i (Suc i) qs cs ks"
    by (auto simp: items_written_def fun_eq_iff)
  then show ?thesis
    using ready_reads [OF assms] by (simp add: items_one_def mem_write_def)
qed

lemma mm256_loadu_mem:
  assumes "h p = Some x0" "h (p + 1) = Some x1" "h (p + 2) = Some x2" "h (p + 3) = Some x3"
  shows "mm256_loadu_pd h p = Some (M256 x0 x1 x2 x3)"
  using assms by (simp add: mm256_loadu_pd_def)

lemma mm512_loadu_mem:
  assumes "h p = Some x0" "h (p + 1) = Some x1" "h (p + 2) = Some x2" "h (p + 3) = Some x3"
    "h (p + 4) = Some x4" "h (p + 5) = Some x5" "h (p + 6) = Some x6" "h (p + 7) = Some x7"
  shows "mm512_loadu_pd h p = Some (M512 x0 x1 x2 x3 x4 x5 x6 x7)"
  using assms by (simp add: mm512_loadu_pd_def)

lemma ready_load4:
  assumes "items_ready h q c k r count qs cs ks" "i + 4 \<le> count"
  shows "mm256_loadu_pd h (q + i) = Some (M256 (qs ! i) (qs ! (i + 1)) (qs ! (i + 2)) (qs ! (i + 3)))"
    "mm256_loadu_pd h (c + i) = Some (M256 (cs ! i) (cs ! (i + 1)) (cs ! (i + 2)) (cs ! (i + 3)))"
    "mm256_loadu_pd h (k + i) = Some (M256 (ks ! i) (ks ! (i + 1)) (ks ! (i + 2)) (ks ! (i + 3)))"
  using ready_reads(1-3) [OF assms(1), of i] ready_reads(1-3) [OF assms(1), of "i + 1"]
    ready_reads(1-3) [OF assms(1), of "i + 2"] ready_reads(1-3) [OF assms(1), of "i + 3"] assms(2)
  by (auto intro!: mm256_loadu_mem simp: add.assoc)

lemma ready_load8:
  assumes "items_ready h q c k r count qs cs ks" "i + 8 \<le> count"
  shows "mm512_loadu_pd h (q + i) = Some (M512 (qs ! i) (qs ! (i + 1)) (qs ! (i + 2)) (qs ! (i + 3))
           (qs ! (i + 4)) (qs ! (i + 5)) (qs ! (i + 6)) (qs ! (i + 7)))"
    "mm512_loadu_pd h (c + i) = Some (M512 (cs ! i) (cs ! (i + 1)) (cs ! (i + 2)) (cs ! (i + 3))
           (cs ! (i + 4)) (cs ! (i + 5)) (cs ! (i + 6)) (cs ! (i + 7)))"
    "mm512_loadu_pd h (k + i) = Some (M512 (ks ! i) (ks ! (i + 1)) (ks ! (i + 2)) (ks ! (i + 3))
           (ks ! (i + 4)) (ks ! (i + 5)) (ks ! (i + 6)) (ks ! (i + 7)))"
  using ready_reads(1-3) [OF assms(1), of i] ready_reads(1-3) [OF assms(1), of "i + 1"]
    ready_reads(1-3) [OF assms(1), of "i + 2"] ready_reads(1-3) [OF assms(1), of "i + 3"]
    ready_reads(1-3) [OF assms(1), of "i + 4"] ready_reads(1-3) [OF assms(1), of "i + 5"]
    ready_reads(1-3) [OF assms(1), of "i + 6"] ready_reads(1-3) [OF assms(1), of "i + 7"] assms(2)
  by (auto intro!: mm512_loadu_mem simp: add.assoc)

lemma written4:
  fixes p i :: nat
  shows "h(p \<mapsto> f i, p + 1 \<mapsto> f (i + 1), p + 2 \<mapsto> f (i + 2), p + 3 \<mapsto> f (i + 3)) =
   (\<lambda>a. if p \<le> a \<and> a < p + 4 then Some (f (i + (a - p))) else h a)"
proof
  fix a
  consider "a < p" | "a = p" | "a = p + 1" | "a = p + 2" | "a = p + 3" | "p + 4 \<le> a"
    by linarith
  then show "(h(p \<mapsto> f i, p + 1 \<mapsto> f (i + 1), p + 2 \<mapsto> f (i + 2), p + 3 \<mapsto> f (i + 3))) a =
     (if p \<le> a \<and> a < p + 4 then Some (f (i + (a - p))) else h a)"
    by cases simp_all
qed

lemma written8:
  fixes p i :: nat
  shows "h(p \<mapsto> f i, p + 1 \<mapsto> f (i + 1), p + 2 \<mapsto> f (i + 2), p + 3 \<mapsto> f (i + 3),
     p + 4 \<mapsto> f (i + 4), p + 5 \<mapsto> f (i + 5), p + 6 \<mapsto> f (i + 6), p + 7 \<mapsto> f (i + 7)) =
   (\<lambda>a. if p \<le> a \<and> a < p + 8 then Some (f (i + (a - p))) else h a)"
proof
  fix a
  consider "a < p" | "a = p" | "a = p + 1" | "a = p + 2" | "a = p + 3" | "a = p + 4"
    | "a = p + 5" | "a = p + 6" | "a = p + 7" | "p + 8 \<le> a"
    by linarith
  then show "(h(p \<mapsto> f i, p + 1 \<mapsto> f (i + 1), p + 2 \<mapsto> f (i + 2), p + 3 \<mapsto> f (i + 3),
     p + 4 \<mapsto> f (i + 4), p + 5 \<mapsto> f (i + 5), p + 6 \<mapsto> f (i + 6), p + 7 \<mapsto> f (i + 7))) a =
     (if p \<le> a \<and> a < p + 8 then Some (f (i + (a - p))) else h a)"
    by cases simp_all
qed

lemma written_shift:
  "(\<lambda>a. if r + i \<le> a \<and> a < r + i + n
        then Some (qs ! (i + (a - (r + i))) * cs ! (i + (a - (r + i))) * ks ! (i + (a - (r + i))))
        else h a) =
   items_written h r i (i + n) qs cs ks"
  by (auto simp: items_written_def fun_eq_iff add.assoc)

lemma items_chunk4_ready:
  assumes "items_ready h q c k r count qs cs ks" "i + 4 \<le> count"
  shows "items_chunk4 h q c k r i = Some (items_written h r i (i + 4) qs cs ks)"
proof -
  let ?f = "\<lambda>j. qs ! j * cs ! j * ks ! j"
  have alloc: "h (r + i) \<noteq> None" "h (r + i + 1) \<noteq> None" "h (r + i + 2) \<noteq> None"
    "h (r + i + 3) \<noteq> None"
    using ready_reads(4) [OF assms(1), of i] ready_reads(4) [OF assms(1), of "i + 1"]
      ready_reads(4) [OF assms(1), of "i + 2"] ready_reads(4) [OF assms(1), of "i + 3"] assms(2)
    by (simp_all add: add.assoc)
  have "items_chunk4 h q c k r i =
      mm256_storeu_pd h (r + i) (M256 (?f i) (?f (i + 1)) (?f (i + 2)) (?f (i + 3)))"
    by (simp add: items_chunk4_def ready_load4 [OF assms] del: mm256_storeu_pd.simps)
  also have "\<dots> = Some (h(r + i \<mapsto> ?f i, r + i + 1 \<mapsto> ?f (i + 1), r + i + 2 \<mapsto> ?f (i + 2),
      r + i + 3 \<mapsto> ?f (i + 3)))"
    using alloc by (simp only: mm256_storeu_Some simp_thms)
  also have "\<dots> = Some (items_written h r i (i + 4) qs cs ks)"
    by (simp only: written4 [of h "r + i" ?f i] written_shift)
  finally show ?thesis .
qed

lemma items_chunk8_ready:
  assumes "items_ready h q c k r count qs cs ks" "i + 8 \<le> count"
  shows "items_chunk8 h q c k r i = Some (items_written h r i (i + 8) qs cs ks)"
proof -
  let ?f = "\<lambda>j. qs ! j * cs ! j * ks ! j"
  have alloc: "h (r + i) \<noteq> None" "h (r + i + 1) \<noteq> None" "h (r + i + 2) \<noteq> None"
    "h (r + i + 3) \<noteq> None" "h (r + i + 4) \<noteq> None" "h (r + i + 5) \<noteq> None"
    "h (r + i + 6) \<noteq> None" "h (r + i + 7) \<noteq> None"
    using ready_reads(4) [OF assms(1), of i] ready_reads(4) [OF assms(1), of "i + 1"]
      ready_reads(4) [OF assms(1), of "i + 2"] ready_reads(4) [OF assms(1), of "i + 3"]
      ready_reads(4) [OF assms(1), of "i + 4"] ready_reads(4) [OF assms(1), of "i + 5"]
      ready_reads(4) [OF assms(1), of "i + 6"] ready_reads(4) [OF assms(1), of "i + 7"] assms(2)
    by (simp_all add: add.assoc)
  have "items_chunk8 h q c k r i =
      mm512_storeu_pd h (r + i) (M512 (?f i) (?f (i + 1)) (?f (i + 2)) (?f (i + 3))
         (?f (i + 4)) (?f (i + 5)) (?f (i + 6)) (?f (i + 7)))"
    by (simp add: items_chunk8_def ready_load8 [OF assms] del: mm512_storeu_pd.simps)
  also have "\<dots> = Some (h(r + i \<mapsto> ?f i, r + i + 1 \<mapsto> ?f (i + 1), r + i + 2 \<mapsto> ?f (i + 2),
      r + i + 3 \<mapsto> ?f (i + 3), r + i + 4 \<mapsto> ?f (i + 4), r + i + 5 \<mapsto> ?f (i + 5),
      r + i + 6 \<mapsto> ?f (i + 6), r + i + 7 \<mapsto> ?f (i + 7)))"
    using alloc by (simp only: mm512_storeu_Some simp_thms)
  also have "\<dots> = Some (items_written h r i (i + 8) qs cs ks)"
    by (simp only: written8 [of h "r + i" ?f i] written_shift)
  finally show ?thesis .
qed

lemma items_tail_ready:
  assumes "items_ready h q c k r count qs cs ks"
  shows "items_tail h q c k r i count = Some (items_written h r i count qs cs ks)"
  using assms
proof (induction h q c k r i count rule: items_tail.induct)
  case (1 h q c k r i count)
  show ?case
  proof (cases "i < count")
    case True
    let ?h1 = "items_written h r i (Suc i) qs cs ks"
    have one: "items_one h q c k r i = Some ?h1"
      using "1.prems" True by (rule items_one_ready)
    have ready1: "items_ready ?h1 q c k r count qs cs ks"
      using "1.prems" True by (intro ready_written) simp_all
    have "items_tail h q c k r i count = items_tail ?h1 q c k r (Suc i) count"
      using True one by (subst items_tail.simps) simp
    also have "\<dots> = Some (items_written ?h1 r (Suc i) count qs cs ks)"
      using "1.IH" [OF True one ready1] .
    also have "\<dots> = Some (items_written h r i count qs cs ks)"
      using True by (simp add: written_compose)
    finally show ?thesis .
  next
    case False
    then have "items_written h r i count qs cs ks = h"
      by (auto simp: items_written_def fun_eq_iff)
    then show ?thesis
      using False by (subst items_tail.simps) simp
  qed
qed

lemma items_loop4_ready:
  assumes "items_ready h q c k r count qs cs ks" "i \<le> count"
  shows "\<exists>i'. i \<le> i' \<and> i' \<le> count \<and>
           items_loop4 h q c k r i count = Some (items_written h r i i' qs cs ks, i')"
  using assms
proof (induction h q c k r i count rule: items_loop4.induct)
  case (1 h q c k r i count)
  show ?case
  proof (cases "i + 4 \<le> count")
    case True
    let ?h1 = "items_written h r i (i + 4) qs cs ks"
    have one: "items_chunk4 h q c k r i = Some ?h1"
      using "1.prems"(1) True by (rule items_chunk4_ready)
    have ready1: "items_ready ?h1 q c k r count qs cs ks"
      using "1.prems"(1) True by (intro ready_written) simp_all
    obtain i' where b: "i + 4 \<le> i'" "i' \<le> count"
      and l: "items_loop4 ?h1 q c k r (i + 4) count =
               Some (items_written ?h1 r (i + 4) i' qs cs ks, i')"
      using "1.IH" [OF True one ready1 True] by blast
    have "items_loop4 h q c k r i count = items_loop4 ?h1 q c k r (i + 4) count"
      using True one by (subst items_loop4.simps) simp
    also have "\<dots> = Some (items_written h r i i' qs cs ks, i')"
      using l b by (simp add: written_compose)
    finally show ?thesis
      using b by (intro exI [of _ i']) simp
  next
    case False
    have "items_written h r i i qs cs ks = h"
      by (auto simp: items_written_def fun_eq_iff)
    then show ?thesis
      using False "1.prems"(2) by (subst items_loop4.simps) (simp add: exI [of _ i])
  qed
qed

lemma items_loop8_ready:
  assumes "items_ready h q c k r count qs cs ks" "i \<le> count"
  shows "\<exists>i'. i \<le> i' \<and> i' \<le> count \<and>
           items_loop8 h q c k r i count = Some (items_written h r i i' qs cs ks, i')"
  using assms
proof (induction h q c k r i count rule: items_loop8.induct)
  case (1 h q c k r i count)
  show ?case
  proof (cases "i + 8 \<le> count")
    case True
    let ?h1 = "items_written h r i (i + 8) qs cs ks"
    have one: "items_chunk8 h q c k r i = Some ?h1"
      using "1.prems"(1) True by (rule items_chunk8_ready)
    have ready1: "items_ready ?h1 q c k r count qs cs ks"
      using "1.prems"(1) True by (intro ready_written) simp_all
    obtain i' where b: "i + 8 \<le> i'" "i' \<le> count"
      and l: "items_loop8 ?h1 q c k r (i + 8) count =
               Some (items_written ?h1 r (i + 8) i' qs cs ks, i')"
      using "1.IH" [OF True one ready1 True] by blast
    have "items_loop8 h q c k r i count = items_loop8 ?h1 q c k r (i + 8) count"
      using True one by (subst items_loop8.simps) simp
    also have "\<dots> = Some (items_written h r i i' qs cs ks, i')"
      using l b by (simp add: written_compose)
    finally show ?thesis
      using b by (intro exI [of _ i']) simp
  next
    case False
    have "items_written h r i i qs cs ks = h"
      by (auto simp: items_written_def fun_eq_iff)
    then show ?thesis
      using False "1.prems"(2) by (subst items_loop8.simps) (simp add: exI [of _ i])
  qed
qed

lemma calculate_items_avx2_ready:
  assumes "items_ready h q c k r count qs cs ks"
  shows "calculate_items_avx2 b h q c k r count = Some (items_written h r 0 count qs cs ks)"
proof (cases "b = Other_Arch")
  case True
  then show ?thesis
    using assms by (simp add: calculate_items_avx2_def items_tail_ready)
next
  case False
  obtain i1 where b1: "i1 \<le> count"
    and l: "items_loop4 h q c k r 0 count = Some (items_written h r 0 i1 qs cs ks, i1)"
    using items_loop4_ready [OF assms, of 0] by auto
  have "items_ready (items_written h r 0 i1 qs cs ks) q c k r count qs cs ks"
    using assms b1 by (rule ready_written)
  then have "items_tail (items_written h r 0 i1 qs cs ks) q c k r i1 count =
      Some (items_written h r 0 count qs cs ks)"
    using b1 by (simp add: items_tail_ready written_compose)
  then show ?thesis
    using False l by (cases b) (simp_all add: calculate_items_avx2_def)
qed

lemma calculate_items_avx512_ready:
  assumes "items_ready h q c k r count qs cs ks"
  shows "calculate_items_avx512 b h q c k r count = Some (items_written h r 0 count qs cs ks)"
proof (cases "b = X86_AVX512F")
  case False
  then show ?thesis
    using assms by (cases b) (simp_all add: calculate_items_avx512_def calculate_items_avx2_ready)
next
  case True
  obtain i1 where b1: "i1 \<le> count"
    and l8: "items_loop8 h q c k r 0 count = Some (items_written h r 0 i1 qs cs ks, i1)"
    using items_loop8_ready [OF assms, of 0] by auto
  let ?h1 = "items_written h r 0 i1 qs cs ks"
  have ready1: "items_ready ?h1 q c k r count qs cs ks"
    using assms b1 by (rule ready_written)
  obtain i2 where b2: "i1 \<le> i2" "i2 \<le> count"
    and l4: "items_loop4 ?h1 q c k r i1 count = Some (items_written ?h1 r i1 i2 qs cs ks, i2)"
    using items_loop4_ready [OF ready1 b1] by auto
  have h2: "items_written ?h1 r i1 i2 qs cs ks = items_written h r 0 i2 qs cs ks"
    using b2 by (simp add: written_compose)
  have "items_ready (items_written h r 0 i2 qs cs ks) q c k r count qs cs ks"
    using assms b2(2) by (rule ready_written)
  then have "items_tail (items_written h r 0 i2 qs cs ks) q c k r i2 count =
      Some (items_written h r 0 count qs cs ks)"
    using b2 by (simp add: items_tail_ready written_compose)
  then show ?thesis
    using True l8 l4 h2 by (simp add: calculate_items_avx512_def)
qed

lemma array_at_take:
  assumes "array_at h p xs" "n \<le> length xs"
  shows "array_at h p (take n xs)"
proof (rule array_atI)
  fix j assume "j < length (take n xs)"
  then have j: "j < n" "j < length xs"
    using assms(2) by simp_all
  then show "h (p + j) = Some (take n xs ! j)"
    using array_at_nth [OF assms(1), of j] by simp
qed

text \<open>
  Claim C6. When the memory holds arrays of at least count elements at \<open>quantities\<close>,
  \<open>unit_costs\<close> and \<open>coefficients\<close>, the count cells at \<open>results\<close> are allocated and
  overlap none of the first count cells of the inputs, \<open>calculate_items_avx2\<close> and
  \<open>calculate_items_avx512\<close> return, and afterwards \<open>results[i]\<close> is
  \<open>quantities[i] * unit_costs[i] * coefficients[i]\<close> for every \<open>i\<close> below count. The type of
  the numbers is arbitrary: the vector and the scalar paths multiply in the same order.
\<close>

theorem items_triple_product:
  assumes "array_at h quantities qs" "array_at h unit_costs cs" "array_at h coefficients ks"
    and "count \<le> length qs" "count \<le> length cs" "count \<le> length ks"
    and "allocated h results count"
    and "separate results count quantities count" "separate results count unit_costs count"
      "separate results count coefficients count"
  shows "\<exists>h'. calculate_items_avx2 b h quantities unit_costs coefficients results count = Some h' \<and>
           calculate_items_avx512 b' h quantities unit_costs coefficients results count =
             Some h' \<and>
           array_at h' results (map (\<lambda>i. qs ! i * cs ! i * ks ! i) [0..<count])"
proof -
  have ready: "items_ready h quantities unit_costs coefficients results count qs cs ks"
    using assms by (simp add: items_ready_def array_at_take)
  have "array_at (items_written h results 0 count qs cs ks) results
          (map (\<lambda>i. qs ! i * cs ! i * ks ! i) [0..<count])"
    by (rule array_atI) (simp add: items_written_def)
  then show ?thesis
    using calculate_items_avx2_ready [OF ready, of b] calculate_items_avx512_ready [OF ready, of b']
    by simp
qed

theorem items_triple_product_witness:
  "array_at (memory_of [2, 3, 4, 5, 1, 1, 1, 1, 10, 10, 10, 10, 0, 0, 0, 0 :: real]) 0 [2, 3, 4, 5] \<and>
   allocated (memory_of [2, 3, 4, 5, 1, 1, 1, 1, 10, 10, 10, 10, 0, 0, 0, 0 :: real]) 12 4 \<and>
   separate 12 4 0 4 \<and>
   (\<exists>h'. calculate_items_avx2 X86_AVX2
            (memory_of [2, 3, 4, 5, 1, 1, 1, 1, 10, 10, 10, 10, 0, 0, 0, 0 :: real]) 0 4 8 12 4 =
            Some h' \<and>
          calculate_items_avx512 X86_AVX512F
            (memory_of [2, 3, 4, 5, 1, 1, 1, 1, 10, 10, 10, 10, 0, 0, 0, 0 :: real]) 0 4 8 12 4 =
            Some h' \<and>
          array_at h' 12 [20, 30, 40, 50])"
proof -
  let ?h = "memory_of [2, 3, 4, 5, 1, 1, 1, 1, 10, 10, 10, 10, 0, 0, 0, 0 :: real]"
  have a: "array_at ?h 0 [2, 3, 4, 5]" "array_at ?h 4 [1, 1, 1, 1]"
    "array_at ?h 8 [10, 10, 10, 10]"
    by (simp_all add: array_at_def memory_of_def upt_rec)
  have l: "(4::nat) \<le> length [2, 3, 4, 5 :: real]" "(4::nat) \<le> length [1, 1, 1, 1 :: real]"
    "(4::nat) \<le> length [10, 10, 10, 10 :: real]"
    by simp_all
  have al: "allocated ?h 12 4"
    by (simp add: allocated_def memory_of_def upt_rec)
  have s: "separate 12 4 0 4" "separate 12 4 4 4" "separate 12 4 8 4"
    by (simp_all add: separate_def)
  have m: "map (\<lambda>i. [2, 3, 4, 5] ! i * [1, 1, 1, 1] ! i * [10, 10, 10, 10] ! i) [0..<4] =
      [20, 30, 40, 50 :: real]"
    by (simp add: upt_rec)
  show ?thesis
    using items_triple_product [OF a l al s, of X86_AVX2 X86_AVX512F] a(1) al s(1)
    by (simp only: m simp_thms)
qed

text \<open>
  Why the theorem asks for a results buffer that does not overlap the inputs: with
  \<^verbatim>\<open>results = quantities + 1\<close> the scalar loop reads the products it has just written,
  the 4-wide loop does not, and the two builds return different arrays.
\<close>

lemma items_overlap_example:
  "map_option (\<lambda>h'. map h' [1, 2, 3, 4])
     (calculate_items_avx2 Other_Arch
        (memory_of [2, 3, 4, 5, 0, 1, 1, 1, 1, 10, 10, 10, 10 :: real]) 0 5 9 1 4) =
   Some [Some 20, Some 200, Some 2000, Some 20000]"
  "map_option (\<lambda>h'. map h' [1, 2, 3, 4])
     (calculate_items_avx2 X86_AVX2
        (memory_of [2, 3, 4, 5, 0, 1, 1, 1, 1, 10, 10, 10, 10 :: real]) 0 5 9 1 4) =
   Some [Some 20, Some 30, Some 40, Some 50]"
  by (simp_all add: items_eval)

subsection \<open>The estimate tiers on doubles with special values\<close>

lemma dbl_max_pos: "0 < dbl_max"
  by (simp add: dbl_max_def)








































lemma zero_times_finite: "is_finite x \<Longrightarrow> 0 * x = (0::double)"
  using dbl_max_pos by (cases x) (simp_all add: zero_double_def overflow_def)

lemma zero_plus_zero: "(0::double) + 0 = 0"
  using dbl_max_pos by (simp add: zero_double_def overflow_def)

text \<open>
  Claim C5, for finite settings. For \<open>count = 0\<close>, any arrays and every settings record whose four
  fields are finite doubles, the scalar, AVX2, AVX-512 and auto tiers return a result
  whose ten fields are all 0. The numbers are doubles with their special values.
\<close>

theorem zero_count_all_zero:
  fixes quantities :: "double list"
  assumes "is_finite (index settings)" "is_finite (overhead_rate settings)"
    "is_finite (profit_rate settings)" "is_finite (vat_rate settings)"
  shows
  "calculate_estimate_scalar quantities direct_unit labor_unit machine_op_unit material_unit
     machine_unit 0 settings =
   Some \<lparr>direct_costs = 0, labor_costs = 0, machine_op_costs = 0, material_costs = 0,
         machine_costs = 0, overhead = 0, profit = 0, subtotal = 0, vat = 0, total' = 0\<rparr> \<and>
   calculate_estimate_avx2 b quantities direct_unit labor_unit machine_op_unit material_unit
     machine_unit 0 settings =
   Some \<lparr>direct_costs = 0, labor_costs = 0, machine_op_costs = 0, material_costs = 0,
         machine_costs = 0, overhead = 0, profit = 0, subtotal = 0, vat = 0, total' = 0\<rparr> \<and>
   calculate_estimate_avx512 b quantities direct_unit labor_unit machine_op_unit material_unit
     machine_unit 0 settings =
   Some \<lparr>direct_costs = 0, labor_costs = 0, machine_op_costs = 0, material_costs = 0,
         machine_costs = 0, overhead = 0, profit = 0, subtotal = 0, vat = 0, total' = 0\<rparr> \<and>
   calculate_estimate_auto b c quantities direct_unit labor_unit machine_op_unit material_unit
     machine_unit 0 settings =
   Some \<lparr>direct_costs = 0, labor_costs = 0, machine_op_costs = 0, material_costs = 0,
         machine_costs = 0, overhead = 0, profit = 0, subtotal = 0, vat = 0, total' = 0\<rparr>"
proof -
  have s: "calculate_estimate_scalar quantities direct_unit labor_unit machine_op_unit
     material_unit machine_unit 0 settings =
   Some \<lparr>direct_costs = 0, labor_costs = 0, machine_op_costs = 0, material_costs = 0,
         machine_costs = 0, overhead = 0, profit = 0, subtotal = 0, vat = 0, total' = 0\<rparr>"
    using assms
    by (simp add: calculate_estimate_scalar_def scalar_loop_stop zero_result_def
        zero_times_finite zero_plus_zero)
  have a2: "calculate_estimate_avx2 b quantities direct_unit labor_unit machine_op_unit
     material_unit machine_unit 0 settings =
     calculate_estimate_scalar quantities direct_unit labor_unit machine_op_unit
     material_unit machine_unit 0 settings"
    by (cases b) (simp_all add: calculate_estimate_avx2_def calculate_estimate_avx2_x86_def)
  have a5: "calculate_estimate_avx512 b quantities direct_unit labor_unit machine_op_unit
     material_unit machine_unit 0 settings =
     calculate_estimate_scalar quantities direct_unit labor_unit machine_op_unit
     material_unit machine_unit 0 settings"
    by (cases b)
       (simp_all add: calculate_estimate_avx512_def calculate_estimate_avx512_avx512f_def a2
          calculate_estimate_avx2_def calculate_estimate_avx2_x86_def)
  show ?thesis
    by (simp add: calculate_estimate_auto_def a2 a5 s)
qed

theorem zero_count_all_zero_witness:
  "is_finite (Finite 1) \<and> is_finite (Finite 0.12) \<and> is_finite (Finite 0.08) \<and>
   is_finite (Finite 0.20) \<and>
   calculate_estimate_scalar [] [] [] [] [] [] 0
     \<lparr>overhead_rate = Finite 0.12, profit_rate = Finite 0.08, vat_rate = Finite 0.20,
      index = Finite 1\<rparr> =
   Some \<lparr>direct_costs = 0, labor_costs = 0, machine_op_costs = 0, material_costs = 0,
         machine_costs = 0, overhead = 0, profit = 0, subtotal = 0, vat = 0, total' = 0\<rparr> \<and>
   calculate_estimate_avx512 X86_AVX512F [] [] [] [] [] [] 0
     \<lparr>overhead_rate = Finite 0.12, profit_rate = Finite 0.08, vat_rate = Finite 0.20,
      index = Finite 1\<rparr> =
   Some \<lparr>direct_costs = 0, labor_costs = 0, machine_op_costs = 0, material_costs = 0,
         machine_costs = 0, overhead = 0, profit = 0, subtotal = 0, vat = 0, total' = 0\<rparr>"
proof -
  have one: "(1::real) \<le> dbl_max"
    by (simp add: dbl_max_def)
  then have f: "is_finite (Finite 1)" "is_finite (Finite 0.12)" "is_finite (Finite 0.08)"
    "is_finite (Finite 0.20)"
    by simp_all
  show ?thesis
    using zero_count_all_zero [of "\<lparr>overhead_rate = Finite 0.12, profit_rate = Finite 0.08,
        vat_rate = Finite 0.20, index = Finite 1\<rparr>" "[]" "[]" "[]" "[]" "[]" "[]" X86_AVX512F] f
    by simp
qed

text \<open>
  Claim C5 without the finiteness of the settings fails: with an
  infinite index, \<open>0 * index\<close> is NaN and all ten fields are NaN.
\<close>

theorem zero_count_all_zero_counterexample:
  "calculate_estimate_scalar [] [] [] [] [] [] 0
     \<lparr>overhead_rate = Finite 0.12, profit_rate = Finite 0.08, vat_rate = Finite 0.20,
      index = PInf\<rparr> =
   Some \<lparr>direct_costs = NaN, labor_costs = NaN, machine_op_costs = NaN, material_costs = NaN,
         machine_costs = NaN, overhead = NaN, profit = NaN, subtotal = NaN, vat = NaN,
         total' = NaN\<rparr> \<and>
   calculate_estimate_scalar [] [] [] [] [] [] 0
     \<lparr>overhead_rate = Finite 0.12, profit_rate = Finite 0.08, vat_rate = Finite 0.20,
      index = PInf\<rparr> \<noteq>
   Some \<lparr>direct_costs = 0, labor_costs = 0, machine_op_costs = 0, material_costs = 0,
         machine_costs = 0, overhead = 0, profit = 0, subtotal = 0, vat = 0, total' = 0\<rparr>"
  by (simp add: calculate_estimate_scalar_def scalar_loop_stop zero_result_def zero_double_def)




end
